theory Spec2Isabelle
  imports Complex_Main "HOL-Library.Word" "HOL-Library.Multiset"
begin

unbundle bit_operations_syntax

section \<open>JavaScript numbers and typed arrays\<close>

text \<open>
  A JavaScript \<^verbatim>\<open>number\<close> is a double. It is modelled as a real number extended with
  the three special values of IEEE arithmetic; the sign of zero is not modelled. The
  operations \<open>+\<close>, \<open>-\<close>, \<open>*\<close>, \<open>/\<close> of the type are exact on finite values and follow
  IEEE 754 on the special ones (\<^verbatim>\<open>Infinity - Infinity\<close> is \<^verbatim>\<open>NaN\<close>, every comparison
  with \<^verbatim>\<open>NaN\<close> is false, and so on); division by a finite zero takes the zero as
  positive. The operations of the machine, which round every result to the nearest
  double, follow below as \<open>fadd\<close>, \<open>fsub\<close>, \<open>fmul\<close>, \<open>fdiv\<close>. The modules
  \<^verbatim>\<open>cross-section.ts\<close> and \<^verbatim>\<open>load-pointcloud.ts\<close> are modelled with the rounded
  operations, the two quotients of integers of the subsampling stride apart; in
  \<^verbatim>\<open>colormaps.ts\<close> and \<^verbatim>\<open>colorize.ts\<close> the interpolation is modelled with the exact
  ones.
\<close>

datatype number = Fin real | PosInf | NegInf | NaN

instantiation number :: "{zero,one,plus,minus,uminus,times,inverse,abs,ord}"
begin

definition zero_number :: number where
  "zero_number = Fin 0"

definition one_number :: number where
  "one_number = Fin 1"

fun plus_number :: "number \<Rightarrow> number \<Rightarrow> number" where
  "plus_number NaN _ = NaN"
| "plus_number _ NaN = NaN"
| "plus_number (Fin a) (Fin b) = Fin (a + b)"
| "plus_number PosInf NegInf = NaN"
| "plus_number NegInf PosInf = NaN"
| "plus_number PosInf _ = PosInf"
| "plus_number _ PosInf = PosInf"
| "plus_number NegInf _ = NegInf"
| "plus_number _ NegInf = NegInf"

fun uminus_number :: "number \<Rightarrow> number" where
  "uminus_number (Fin a) = Fin (- a)"
| "uminus_number PosInf = NegInf"
| "uminus_number NegInf = PosInf"
| "uminus_number NaN = NaN"

definition minus_number :: "number \<Rightarrow> number \<Rightarrow> number" where
  "minus_number a b = a + (- b)"

fun times_number :: "number \<Rightarrow> number \<Rightarrow> number" where
  "times_number NaN _ = NaN"
| "times_number _ NaN = NaN"
| "times_number (Fin a) (Fin b) = Fin (a * b)"
| "times_number (Fin a) PosInf = (if a = 0 then NaN else if 0 < a then PosInf else NegInf)"
| "times_number (Fin a) NegInf = (if a = 0 then NaN else if 0 < a then NegInf else PosInf)"
| "times_number PosInf (Fin b) = (if b = 0 then NaN else if 0 < b then PosInf else NegInf)"
| "times_number NegInf (Fin b) = (if b = 0 then NaN else if 0 < b then NegInf else PosInf)"
| "times_number PosInf PosInf = PosInf"
| "times_number NegInf NegInf = PosInf"
| "times_number PosInf NegInf = NegInf"
| "times_number NegInf PosInf = NegInf"

fun divide_number :: "number \<Rightarrow> number \<Rightarrow> number" where
  "divide_number NaN _ = NaN"
| "divide_number _ NaN = NaN"
| "divide_number (Fin a) (Fin b) =
     (if b = 0 then (if a = 0 then NaN else if 0 < a then PosInf else NegInf)
      else Fin (a / b))"
| "divide_number (Fin a) _ = Fin 0"
| "divide_number PosInf (Fin b) = (if 0 \<le> b then PosInf else NegInf)"
| "divide_number NegInf (Fin b) = (if 0 \<le> b then NegInf else PosInf)"
| "divide_number _ _ = NaN"

definition inverse_number :: "number \<Rightarrow> number" where
  "inverse_number a = divide (Fin 1) a"

fun abs_number :: "number \<Rightarrow> number" where
  "abs_number (Fin a) = Fin \<bar>a\<bar>"
| "abs_number NaN = NaN"
| "abs_number _ = PosInf"

fun less_number :: "number \<Rightarrow> number \<Rightarrow> bool" where
  "less_number (Fin a) (Fin b) = (a < b)"
| "less_number NegInf (Fin _) = True"
| "less_number NegInf PosInf = True"
| "less_number (Fin _) PosInf = True"
| "less_number _ _ = False"

fun less_eq_number :: "number \<Rightarrow> number \<Rightarrow> bool" where
  "less_eq_number NaN _ = False"
| "less_eq_number _ NaN = False"
| "less_eq_number (Fin a) (Fin b) = (a \<le> b)"
| "less_eq_number NegInf _ = True"
| "less_eq_number _ PosInf = True"
| "less_eq_number _ _ = False"

instance ..

end

text \<open>\<^verbatim>\<open>Math.max\<close>, \<^verbatim>\<open>Math.min\<close>: \<^verbatim>\<open>NaN\<close> as soon as one argument is \<^verbatim>\<open>NaN\<close>.\<close>

fun Math_max :: "number \<Rightarrow> number \<Rightarrow> number" where
  "Math_max NaN _ = NaN"
| "Math_max _ NaN = NaN"
| "Math_max a b = (if a < b then b else a)"

fun Math_min :: "number \<Rightarrow> number \<Rightarrow> number" where
  "Math_min NaN _ = NaN"
| "Math_min _ NaN = NaN"
| "Math_min a b = (if b < a then b else a)"

text \<open>\<^verbatim>\<open>Math.round\<close> rounds to the nearest integer, halves towards \<^verbatim>\<open>+Infinity\<close>.\<close>

fun Math_round :: "number \<Rightarrow> number" where
  "Math_round (Fin a) = Fin (of_int \<lfloor>a + 1 / 2\<rfloor>)"
| "Math_round a = a"

fun Math_sqrt :: "number \<Rightarrow> number" where
  "Math_sqrt (Fin a) = (if a < 0 then NaN else Fin (sqrt a))"
| "Math_sqrt PosInf = PosInf"
| "Math_sqrt _ = NaN"

fun Math_cos :: "number \<Rightarrow> number" where
  "Math_cos (Fin a) = Fin (cos a)"
| "Math_cos _ = NaN"

text \<open>
  Rounding to the nearest value of a binary format with \<open>p\<close> bits of precision and
  exponents from \<open>emin\<close> to \<open>emax\<close>, ties to the even neighbour: \<open>x\<close> lies in the binade
  of exponent \<open>e\<close> (not below \<open>emin\<close>, where the values are subnormal), the values of
  the format there are the multiples of \<open>q = 2 ^ (e - p + 1)\<close>, and a result of
  magnitude \<open>2 ^ (emax + 1)\<close> or more overflows to an infinity.
\<close>

definition rne :: "real \<Rightarrow> int" where
  "rne y =
     (let f = \<lfloor>y\<rfloor>; r = y - of_int f
      in if r < 1 / 2 then f else if 1 / 2 < r then f + 1 else if even f then f else f + 1)"

definition round_binary :: "nat \<Rightarrow> int \<Rightarrow> int \<Rightarrow> real \<Rightarrow> number" where
  "round_binary p emin emax x =
     (if x = 0 then Fin 0
      else
        let e = max emin \<lfloor>log 2 \<bar>x\<bar>\<rfloor>;
            q = 2 powr real_of_int (e - int p + 1);
            y = real_of_int (rne (x / q)) * q
        in if 2 powr real_of_int (emax + 1) \<le> \<bar>y\<bar>
           then (if 0 < x then PosInf else NegInf)
           else Fin y)"

text \<open>The double nearest to a number (binary64), and the rounded operations.\<close>

fun fl :: "number \<Rightarrow> number" where
  "fl (Fin x) = round_binary 53 (- 1022) 1023 x"
| "fl a = a"

definition fadd :: "number \<Rightarrow> number \<Rightarrow> number" where
  "fadd a b = fl (a + b)"

definition fsub :: "number \<Rightarrow> number \<Rightarrow> number" where
  "fsub a b = fl (a - b)"

definition fmul :: "number \<Rightarrow> number \<Rightarrow> number" where
  "fmul a b = fl (a * b)"

definition fdiv :: "number \<Rightarrow> number \<Rightarrow> number" where
  "fdiv a b = fl (a / b)"

text \<open>
  \<^verbatim>\<open>Math.sqrt\<close> and \<^verbatim>\<open>Math.cos\<close> on doubles; the cosine is taken as correctly
  rounded. \<^verbatim>\<open>Math.PI\<close> is the double nearest to \<open>\<pi>\<close>, which is
  \<open>884279719003555 / 2 ^ 48\<close>.
\<close>

definition fsqrt :: "number \<Rightarrow> number" where
  "fsqrt a = fl (Math_sqrt a)"

definition fcos :: "number \<Rightarrow> number" where
  "fcos a = fl (Math_cos a)"

definition Math_PI :: number where
  "Math_PI = Fin (884279719003555 / 281474976710656)"

text \<open>
  \<^verbatim>\<open>Math.fround\<close>, the conversion that a store into a \<^verbatim>\<open>Float32Array\<close> applies: the
  nearest single-precision value (binary32).
\<close>

fun fround :: "number \<Rightarrow> number" where
  "fround (Fin x) = round_binary 24 (- 126) 127 x"
| "fround a = a"

text \<open>
  A value read from an array is a number or \<^verbatim>\<open>undefined\<close> (\<open>None\<close>): a typed array
  answers \<^verbatim>\<open>undefined\<close> to a read beyond its length. Arithmetic and comparisons
  convert \<^verbatim>\<open>undefined\<close> to \<^verbatim>\<open>NaN\<close>.
\<close>

type_synonym jsval = "number option"

fun ToNumber :: "jsval \<Rightarrow> number" where
  "ToNumber None = NaN"
| "ToNumber (Some a) = a"

text \<open>
  A \<^verbatim>\<open>Float32Array\<close> or \<^verbatim>\<open>Float64Array\<close> is a list of numbers. The model writes
  \<open>fround\<close> where the code stores into a \<^verbatim>\<open>Float32Array\<close>. A store beyond the length
  of a typed array does nothing, as \<open>xs[i := v]\<close> does.
\<close>

definition rd :: "number list \<Rightarrow> nat \<Rightarrow> jsval" where
  "rd xs i = (if i < length xs then Some (xs ! i) else None)"

text \<open>A \<^verbatim>\<open>Uint8Array\<close> is a list of bytes; a read yields the byte as a number.\<close>

definition rd8 :: "8 word list \<Rightarrow> nat \<Rightarrow> jsval" where
  "rd8 xs i = (if i < length xs then Some (Fin (real (unat (xs ! i)))) else None)"

text \<open>
  A store into a \<^verbatim>\<open>Uint8Array\<close> converts with \<^verbatim>\<open>ToUint8\<close>: the special values
  become 0, a finite value is truncated towards zero and taken modulo 256.
\<close>

fun ToUint8 :: "number \<Rightarrow> 8 word" where
  "ToUint8 (Fin a) = word_of_int (if 0 \<le> a then \<lfloor>a\<rfloor> else \<lceil>a\<rceil>)"
| "ToUint8 _ = 0"

section \<open>colormaps.ts\<close>

datatype ColormapName =
  viridis | plasma | inferno | magma | cividis | turbo | jet | rainbow | coolwarm
  | terrain | gray

text \<open>A color stop: position, red, green, blue.\<close>

type_synonym ColorStop = "number \<times> number \<times> number \<times> number"

definition stop :: "real \<Rightarrow> real \<Rightarrow> real \<Rightarrow> real \<Rightarrow> ColorStop" where
  "stop p r g b = (Fin p, Fin r, Fin g, Fin b)"

fun COLORMAPS :: "ColormapName \<Rightarrow> ColorStop list" where
  "COLORMAPS viridis =
    [stop 0.0 68 1 84, stop 0.1 72 35 116, stop 0.2 64 67 135, stop 0.3 52 94 141,
     stop 0.4 41 120 142, stop 0.5 32 144 140, stop 0.6 34 167 132, stop 0.7 68 190 112,
     stop 0.8 121 209 81, stop 0.9 189 222 38, stop 1.0 253 231 37]"
| "COLORMAPS plasma =
    [stop 0.0 13 8 135, stop 0.1 75 3 161, stop 0.2 125 3 168, stop 0.3 168 34 150,
     stop 0.4 203 70 121, stop 0.5 229 107 93, stop 0.6 248 148 65, stop 0.7 253 195 40,
     stop 0.8 240 228 66, stop 0.9 222 244 113, stop 1.0 240 249 33]"
| "COLORMAPS inferno =
    [stop 0.0 0 0 4, stop 0.1 22 11 57, stop 0.2 66 10 104, stop 0.3 106 23 110,
     stop 0.4 147 38 103, stop 0.5 188 55 84, stop 0.6 221 81 58, stop 0.7 243 118 27,
     stop 0.8 252 165 10, stop 0.9 246 215 70, stop 1.0 252 255 164]"
| "COLORMAPS turbo =
    [stop 0.0 48 18 59, stop 0.1 67 85 189, stop 0.2 45 150 228, stop 0.3 24 196 193,
     stop 0.4 68 227 135, stop 0.5 147 244 73, stop 0.6 209 234 43, stop 0.7 249 195 35,
     stop 0.8 253 141 33, stop 0.9 228 74 25, stop 1.0 163 16 16]"
| "COLORMAPS magma =
    [stop 0.0 0 0 4, stop 0.1 23 11 58, stop 0.2 66 15 117, stop 0.3 114 31 129,
     stop 0.4 163 50 120, stop 0.5 211 67 94, stop 0.6 248 107 78, stop 0.7 254 155 87,
     stop 0.8 252 205 127, stop 0.9 252 253 191, stop 1.0 252 253 255]"
| "COLORMAPS cividis =
    [stop 0.0 0 32 77, stop 0.2 0 53 107, stop 0.4 65 77 107, stop 0.6 124 123 120,
     stop 0.8 190 186 118, stop 1.0 255 234 70]"
| "COLORMAPS jet =
    [stop 0.0 0 0 128, stop 0.125 0 0 255, stop 0.375 0 255 255, stop 0.625 255 255 0,
     stop 0.875 255 0 0, stop 1.0 128 0 0]"
| "COLORMAPS rainbow =
    [stop 0.0 0 0 255, stop 0.2 0 255 255, stop 0.4 0 255 0, stop 0.6 255 255 0,
     stop 0.8 255 0 0, stop 1.0 255 0 255]"
| "COLORMAPS coolwarm =
    [stop 0.0 59 76 192, stop 0.25 119 154 229, stop 0.5 221 221 221,
     stop 0.75 241 142 105, stop 1.0 180 4 38]"
| "COLORMAPS terrain =
    [stop 0.0 51 128 51, stop 0.2 102 179 102, stop 0.3 179 204 102, stop 0.4 204 179 102,
     stop 0.6 179 128 77, stop 0.8 204 179 153, stop 1.0 255 255 255]"
| "COLORMAPS gray =
    [stop 0.0 0 0 0, stop 1.0 255 255 255]"

text \<open>
  The loop of \<^verbatim>\<open>sampleColormap\<close> over the pairs \<^verbatim>\<open>stops[i]\<close>, \<^verbatim>\<open>stops[i + 1]\<close>:
  the first pair that brackets \<open>t\<close> returns the interpolated color; \<open>None\<close> when the
  loop ends without returning.
\<close>

fun bracket :: "ColorStop list \<Rightarrow> number \<Rightarrow> (number \<times> number \<times> number) option" where
  "bracket ((pos0, r0, g0, b0) # (pos1, r1, g1, b1) # rest) t =
     (if pos0 \<le> t \<and> t \<le> pos1 then
        (let fraction = (t - pos0) / (pos1 - pos0) in
         Some (Math_round (r0 + (r1 - r0) * fraction),
               Math_round (g0 + (g1 - g0) * fraction),
               Math_round (b0 + (b1 - b0) * fraction)))
      else bracket ((pos1, r1, g1, b1) # rest) t)"
| "bracket _ t = None"

definition sampleColormap :: "ColormapName \<Rightarrow> number \<Rightarrow> number \<times> number \<times> number" where
  "sampleColormap name t0 =
     (let stops = COLORMAPS name;
          t = Math_max 0 (Math_min 1 t0)
      in case bracket stops t of
           Some c \<Rightarrow> c
         | None \<Rightarrow> (case last stops of (pos, r, g, b) \<Rightarrow> (r, g, b)))"

text \<open>The color of a stop.\<close>

fun stop_color :: "ColorStop \<Rightarrow> number \<times> number \<times> number" where
  "stop_color (pos, r, g, b) = (r, g, b)"

section \<open>types.ts\<close>

record Bounds =
  minX :: number
  maxX :: number
  minY :: number
  maxY :: number
  minZ :: number
  maxZ :: number

text \<open>
  \<^verbatim>\<open>PointCloudData\<close>: the optional buffers are \<open>None\<close> where the source holds
  \<^verbatim>\<open>null\<close>. Nothing ties \<open>pointCount\<close> to the lengths of the buffers.
\<close>

record PointCloudData =
  positions :: "number list"
  coordinateOrigin :: "number \<times> number \<times> number"
  colors :: "8 word list option"
  intensities :: "number list option"
  classifications :: "8 word list option"
  pointCount :: nat
  bounds :: Bounds

record ProfilePoint =
  distance :: number
  elevation :: jsval
  classification :: jsval
  intensity :: jsval
  color :: "jsval \<times> jsval \<times> jsval"

datatype ColorScheme = Elevation | Intensity | Classification | RGB

text \<open>
  \<^verbatim>\<open>ViewSettings\<close>, with the three fields that \<^verbatim>\<open>colorizePoints\<close> reads; the other
  fields (point size, opacity, field of view and so on) only reach the renderer.
\<close>

record ViewSettings =
  colorScheme :: ColorScheme
  colormap :: ColormapName
  classificationVisibility :: "nat \<rightharpoonup> bool"

text \<open>What the code throws.\<close>

datatype error =
  RangeError
  | TypeError
  | UnsupportedPointFormat nat
  | DecodeError

section \<open>colorize.ts\<close>

fun CLASSIFICATION_COLORS :: "nat \<Rightarrow> (number \<times> number \<times> number) option" where
  "CLASSIFICATION_COLORS code =
     (if code = 0 then Some (Fin 180, Fin 180, Fin 180)
      else if code = 1 then Some (Fin 180, Fin 180, Fin 180)
      else if code = 2 then Some (Fin 139, Fin 90, Fin 43)
      else if code = 3 then Some (Fin 0, Fin 200, Fin 0)
      else if code = 4 then Some (Fin 0, Fin 150, Fin 0)
      else if code = 5 then Some (Fin 0, Fin 100, Fin 0)
      else if code = 6 then Some (Fin 255, Fin 165, Fin 0)
      else if code = 7 then Some (Fin 255, Fin 0, Fin 0)
      else if code = 9 then Some (Fin 0, Fin 100, Fin 255)
      else if code = 17 then Some (Fin 200, Fin 200, Fin 0)
      else None)"

text \<open>The four stores \<^verbatim>\<open>colors[i * 4] = r; ...; colors[i * 4 + 3] = a\<close>.\<close>

definition put_rgba ::
  "8 word list \<Rightarrow> nat \<Rightarrow> number \<Rightarrow> number \<Rightarrow> number \<Rightarrow> number \<Rightarrow> 8 word list" where
  "put_rgba cs i r g b a =
     cs[i * 4 := ToUint8 r, i * 4 + 1 := ToUint8 g, i * 4 + 2 := ToUint8 b,
        i * 4 + 3 := ToUint8 a]"

definition fillSolidColor ::
  "8 word list \<Rightarrow> nat \<Rightarrow> number \<Rightarrow> number \<Rightarrow> number \<Rightarrow> 8 word list" where
  "fillSolidColor cs cnt r g b =
     fold (\<lambda>i cs. put_rgba cs i r g b (Fin 255)) [0..<cnt] cs"

text \<open>\<^verbatim>\<open>x || 1\<close> on a number: \<open>0\<close> and \<^verbatim>\<open>NaN\<close> are the falsy numbers.\<close>

definition or_1 :: "number \<Rightarrow> number" where
  "or_1 x = (if x = Fin 0 \<or> x = NaN then Fin 1 else x)"

definition colorize_elevation :: "PointCloudData \<Rightarrow> ColormapName \<Rightarrow> 8 word list \<Rightarrow> 8 word list" where
  "colorize_elevation data cmap cs0 =
     (let range = or_1 (maxZ (bounds data) - minZ (bounds data)) in
      fold (\<lambda>i cs.
              let z = ToNumber (rd (positions data) (i * 3 + 2));
                  t = (z - minZ (bounds data)) / range
              in case sampleColormap cmap t of (r, g, b) \<Rightarrow> put_rgba cs i r g b (Fin 255))
        [0..<pointCount data] cs0)"

text \<open>The first loop of the intensity scheme: the observed minimum and maximum.\<close>

definition intensity_range :: "number list \<Rightarrow> nat \<Rightarrow> number \<times> number" where
  "intensity_range ins cnt =
     fold (\<lambda>i (minI, maxI).
              let v = ToNumber (rd ins i);
                  minI' = (if v < minI then v else minI);
                  maxI' = (if maxI < v then v else maxI)
              in (minI', maxI'))
       [0..<cnt] (PosInf, NegInf)"

definition colorize_intensity ::
  "PointCloudData \<Rightarrow> number list \<Rightarrow> ColormapName \<Rightarrow> 8 word list \<Rightarrow> 8 word list" where
  "colorize_intensity data ins cmap cs0 =
     (case intensity_range ins (pointCount data) of (minI, maxI) \<Rightarrow>
        let range = or_1 (maxI - minI) in
        fold (\<lambda>i cs.
                let t = (ToNumber (rd ins i) - minI) / range
                in case sampleColormap cmap t of (r, g, b) \<Rightarrow> put_rgba cs i r g b (Fin 255))
          [0..<pointCount data] cs0)"

text \<open>
  One round of the classification loop. A code read beyond the buffer is
  \<^verbatim>\<open>undefined\<close>, which is a key of neither table: the point is visible and gray.
\<close>

definition classification_step ::
  "8 word list \<Rightarrow> (nat \<rightharpoonup> bool) \<Rightarrow> nat \<Rightarrow> 8 word list \<Rightarrow> 8 word list" where
  "classification_step cls vis i cs =
     (let code = (if i < length cls then Some (unat (cls ! i)) else None);
          isVisible = (case code of None \<Rightarrow> True | Some c \<Rightarrow> vis c \<noteq> Some False)
      in if isVisible then
           (case (case code of None \<Rightarrow> None | Some c \<Rightarrow> CLASSIFICATION_COLORS c) of
              Some (r, g, b) \<Rightarrow> put_rgba cs i r g b (Fin 255)
            | None \<Rightarrow> put_rgba cs i (Fin 180) (Fin 180) (Fin 180) (Fin 255))
         else cs[i * 4 + 3 := ToUint8 (Fin 0)])"

definition colorize_classification ::
  "PointCloudData \<Rightarrow> 8 word list \<Rightarrow> (nat \<rightharpoonup> bool) \<Rightarrow> 8 word list \<Rightarrow> 8 word list" where
  "colorize_classification data cls vis cs0 =
     fold (classification_step cls vis) [0..<pointCount data] cs0"

text \<open>
  \<^verbatim>\<open>colors.set(src)\<close> copies \<open>src\<close> to the front of \<open>colors\<close> and throws a
  \<^verbatim>\<open>RangeError\<close> when \<open>src\<close> is the longer one.
\<close>

definition typed_array_set :: "8 word list \<Rightarrow> 8 word list \<Rightarrow> error + 8 word list" where
  "typed_array_set cs src =
     (if length cs < length src then Inl RangeError
      else Inr (src @ drop (length src) cs))"

definition force_alpha :: "nat \<Rightarrow> 8 word list \<Rightarrow> 8 word list" where
  "force_alpha cnt cs0 = fold (\<lambda>i cs. cs[i * 4 + 3 := ToUint8 (Fin 255)]) [0..<cnt] cs0"

text \<open>
  \<^verbatim>\<open>colorizePoints\<close>. The function calls itself in the \<^verbatim>\<open>rgb\<close> case, so it is defined
  as a partial function: \<open>None\<close> is a call that never returns a value,
  \<open>Some (Inl e)\<close> a call that throws \<open>e\<close>, \<open>Some (Inr cs)\<close> one that returns the
  buffer \<open>cs\<close>.
\<close>

partial_function (option) colorizePoints ::
  "PointCloudData \<Rightarrow> ViewSettings \<Rightarrow> (error + 8 word list) option" where
  "colorizePoints data settings =
     (let cnt = pointCount data;
          colors0 = replicate (cnt * 4) (0 :: 8 word)
      in case colorScheme settings of
           Elevation \<Rightarrow> Some (Inr (colorize_elevation data (colormap settings) colors0))
         | Intensity \<Rightarrow>
             (case intensities data of
                None \<Rightarrow> Some (Inr (fillSolidColor colors0 cnt (Fin 180) (Fin 180) (Fin 180)))
              | Some ins \<Rightarrow> Some (Inr (colorize_intensity data ins (colormap settings) colors0)))
         | Classification \<Rightarrow>
             (case classifications data of
                None \<Rightarrow> Some (Inr (fillSolidColor colors0 cnt (Fin 180) (Fin 180) (Fin 180)))
              | Some cls \<Rightarrow>
                  Some (Inr (colorize_classification data cls
                               (classificationVisibility settings) colors0)))
         | RGB \<Rightarrow>
             (case colors data of
                Some src \<Rightarrow>
                  (case typed_array_set colors0 src of
                     Inl e \<Rightarrow> Some (Inl e)
                   | Inr cs \<Rightarrow> Some (Inr (force_alpha cnt cs)))
              | None \<Rightarrow> colorizePoints data settings))"

declare colorizePoints.simps [code]

section \<open>cross-section.ts\<close>

text \<open>
  \<^verbatim>\<open>Array.prototype.sort\<close> with a comparator: the sort is stable, and \<open>a\<close> goes after
  \<open>b\<close> only where the comparator is positive on \<open>(a, b)\<close> (a \<^verbatim>\<open>NaN\<close> counts as 0). It
  is modelled by a stable insertion sort that asks the comparator.
\<close>

fun insert_by :: "('a \<Rightarrow> 'a \<Rightarrow> number) \<Rightarrow> 'a \<Rightarrow> 'a list \<Rightarrow> 'a list" where
  "insert_by cmp x [] = [x]"
| "insert_by cmp x (y # ys) =
     (if Fin 0 < cmp x y then y # insert_by cmp x ys else x # y # ys)"

definition Array_sort :: "('a \<Rightarrow> 'a \<Rightarrow> number) \<Rightarrow> 'a list \<Rightarrow> 'a list" where
  "Array_sort cmp xs = foldr (insert_by cmp) xs []"

text \<open>The profile point that the loop pushes for point \<open>i\<close> at distance \<open>d\<close>.\<close>

definition profile_point :: "PointCloudData \<Rightarrow> nat \<Rightarrow> number \<Rightarrow> ProfilePoint" where
  "profile_point data i d =
     \<lparr>distance = d,
      elevation = rd (positions data) (i * 3 + 2),
      classification =
        (case classifications data of Some cls \<Rightarrow> rd8 cls i | None \<Rightarrow> Some (Fin 0)),
      intensity =
        (case intensities data of Some ins \<Rightarrow> rd ins i | None \<Rightarrow> Some (Fin 0)),
      color =
        (case colors data of
           Some cs \<Rightarrow> (rd8 cs (i * 4), rd8 cs (i * 4 + 1), rd8 cs (i * 4 + 2))
         | None \<Rightarrow> (Some (Fin 255), Some (Fin 255), Some (Fin 255)))\<rparr>"

text \<open>
  The frame of the corridor that \<^verbatim>\<open>getProfile\<close> computes before its loop: the scale
  factors, the start in meters, the unit vector along the line, and the length.
\<close>

record Corridor =
  metersPerDegLng :: number
  metersPerDegLat :: number
  x1 :: number
  y1 :: number
  ux :: number
  uy :: number
  len :: number

definition corridor :: "PointCloudData \<Rightarrow> number \<times> number \<Rightarrow> number \<times> number \<Rightarrow> Corridor" where
  "corridor data start endp =
     (case coordinateOrigin data of (ox, oy, oz) \<Rightarrow>
        let cosLat = fcos (fdiv (fmul oy Math_PI) (Fin 180));
            mLat = Fin 111320;
            mLng = fmul (Fin 111320) cosLat;
            x1 = fmul (fsub (fst start) ox) mLng;
            y1 = fmul (fsub (snd start) oy) mLat;
            x2 = fmul (fsub (fst endp) ox) mLng;
            y2 = fmul (fsub (snd endp) oy) mLat;
            dx = fsub x2 x1;
            dy = fsub y2 y1;
            lenSq = fadd (fmul dx dx) (fmul dy dy);
            len = fsqrt lenSq
        in \<lparr>metersPerDegLng = mLng, metersPerDegLat = mLat, x1 = x1, y1 = y1,
            ux = fdiv dx len, uy = fdiv dy len, len = len\<rparr>)"

text \<open>The distance along the line and the offset from it of point \<open>i\<close>.\<close>

definition point_dist :: "PointCloudData \<Rightarrow> Corridor \<Rightarrow> nat \<Rightarrow> number" where
  "point_dist data c i =
     (let px = fmul (ToNumber (rd (positions data) (i * 3))) (metersPerDegLng c);
          py = fmul (ToNumber (rd (positions data) (i * 3 + 1))) (metersPerDegLat c);
          vx = fsub px (x1 c);
          vy = fsub py (y1 c)
      in fadd (fmul vx (ux c)) (fmul vy (uy c)))"

definition point_offset :: "PointCloudData \<Rightarrow> Corridor \<Rightarrow> nat \<Rightarrow> number" where
  "point_offset data c i =
     (let px = fmul (ToNumber (rd (positions data) (i * 3))) (metersPerDegLng c);
          py = fmul (ToNumber (rd (positions data) (i * 3 + 1))) (metersPerDegLat c);
          vx = fsub px (x1 c);
          vy = fsub py (y1 c);
          nx = - uy c;
          ny = ux c
      in fadd (fmul vx nx) (fmul vy ny))"

definition profile_step ::
  "PointCloudData \<Rightarrow> Corridor \<Rightarrow> number \<Rightarrow> nat \<Rightarrow> ProfilePoint list \<Rightarrow> ProfilePoint list" where
  "profile_step data c halfWidth i profile =
     (let dist = point_dist data c i;
          offset = point_offset data c i
      in if Fin 0 \<le> dist \<and> dist \<le> len c \<and> \<bar>offset\<bar> \<le> halfWidth
         then profile @ [profile_point data i dist]
         else profile)"

text \<open>The width is 2 when the caller leaves it out (\<open>None\<close>).\<close>

definition getProfile ::
  "PointCloudData \<Rightarrow> number \<times> number \<Rightarrow> number \<times> number \<Rightarrow> jsval \<Rightarrow> ProfilePoint list" where
  "getProfile data start endp width =
     (let c = corridor data start endp;
          w = (case width of None \<Rightarrow> Fin 2 | Some w \<Rightarrow> w)
      in if len c = Fin 0 then []
         else
           let halfWidth = fdiv w (Fin 2);
               profile = fold (profile_step data c halfWidth) [0..<pointCount data] []
           in Array_sort (\<lambda>a b. fsub (distance a) (distance b)) profile)"

section \<open>load-pointcloud.ts\<close>

text \<open>
  The decoded mesh. The declared vertex count is an integer. An attribute that the
  decoder did not produce is \<open>None\<close>; the color attribute carries its channel count.
\<close>

record LASHeader =
  vertexCount :: int

record LASAttributes =
  attr_POSITION :: "number list option"
  attr_COLOR_0 :: "(8 word list \<times> nat) option"
  attr_intensity :: "number list option"
  attr_classification :: "8 word list option"

record LASMesh =
  header :: LASHeader
  attributes :: LASAttributes

definition MAX_POINTS :: int where
  "MAX_POINTS = 500000"

text \<open>\<^verbatim>\<open>DataView.getUint8\<close> throws a \<^verbatim>\<open>RangeError\<close> beyond the buffer.\<close>

definition getUint8 :: "8 word list \<Rightarrow> nat \<Rightarrow> error + 8 word" where
  "getUint8 buf i = (if i < length buf then Inr (buf ! i) else Inl RangeError)"

text \<open>
  The check of the version and the point format in the container header. It returns the
  buffer, with the minor version patched from 4 to 3 where the format is supported.
\<close>

definition checkHeader :: "8 word list \<Rightarrow> error + 8 word list" where
  "checkHeader buf =
     (case getUint8 buf 24 of Inl e \<Rightarrow> Inl e | Inr versionMajor \<Rightarrow>
      case getUint8 buf 25 of Inl e \<Rightarrow> Inl e | Inr versionMinor \<Rightarrow>
      case getUint8 buf 104 of Inl e \<Rightarrow> Inl e | Inr b \<Rightarrow>
        let pointFormatId = b AND 0x3f in
        if versionMajor = 1 \<and> versionMinor = 4 then
          (if 3 < pointFormatId then Inl (UnsupportedPointFormat (unat pointFormatId))
           else Inr (buf[25 := 3]))
        else Inr buf)"

text \<open>
  The subsampling stride and the number of points kept. The quotients are exact: the
  rounding of the division is not modelled.
\<close>

definition sample_step :: "int \<Rightarrow> int" where
  "sample_step totalPoints =
     (if MAX_POINTS < totalPoints then \<lceil>real_of_int totalPoints / real_of_int MAX_POINTS\<rceil>
      else 1)"

definition sample_count :: "int \<Rightarrow> int" where
  "sample_count totalPoints =
     \<lceil>real_of_int totalPoints / real_of_int (sample_step totalPoints)\<rceil>"

text \<open>A \<^verbatim>\<open>for\<close> loop whose body may throw: the first error ends the loop.\<close>

fun for_loop :: "nat list \<Rightarrow> (nat \<Rightarrow> 's \<Rightarrow> error + 's) \<Rightarrow> 's \<Rightarrow> error + 's" where
  "for_loop [] body s = Inr s"
| "for_loop (i # is) body s =
     (case body i s of Inl e \<Rightarrow> Inl e | Inr s' \<Rightarrow> for_loop is body s')"

text \<open>
  The state of the reprojection loop: the buffers it fills and the running bounds.
\<close>

record Reprojection =
  lngLat :: "number list"
  r_intensities :: "number list option"
  r_classifications :: "8 word list option"
  r_bounds :: Bounds

definition track_bounds :: "number \<Rightarrow> number \<Rightarrow> number \<Rightarrow> Bounds \<Rightarrow> Bounds" where
  "track_bounds lng lat z b =
     \<lparr>minX = (if lng < minX b then lng else minX b),
      maxX = (if maxX b < lng then lng else maxX b),
      minY = (if lat < minY b then lat else minY b),
      maxY = (if maxY b < lat then lat else maxY b),
      minZ = (if z < minZ b then z else minZ b),
      maxZ = (if maxZ b < z then z else maxZ b)\<rparr>"

text \<open>
  One round of the reprojection loop. The projection \<open>forward\<close> is the external
  \<^verbatim>\<open>toWGS84.forward\<close>; it may throw. The buffer \<open>lngLat\<close> is a \<^verbatim>\<open>Float64Array\<close>,
  which keeps a double as it is; the intensities go into a \<^verbatim>\<open>Float32Array\<close>.
\<close>

definition reproject_step ::
  "(jsval \<times> jsval \<Rightarrow> error + number \<times> number) \<Rightarrow> number list \<Rightarrow> number list option \<Rightarrow>
   8 word list option \<Rightarrow> nat \<Rightarrow> nat \<Rightarrow> Reprojection \<Rightarrow> error + Reprojection" where
  "reproject_step forward rawPositions rawIntensity rawClassification step i st =
     (let srcIdx = i * step;
          utmX = rd rawPositions (srcIdx * 3);
          utmY = rd rawPositions (srcIdx * 3 + 1);
          z = ToNumber (rd rawPositions (srcIdx * 3 + 2))
      in case forward (utmX, utmY) of
           Inl e \<Rightarrow> Inl e
         | Inr (lng, lat) \<Rightarrow>
             Inr \<lparr>lngLat = (lngLat st)[i * 3 := lng, i * 3 + 1 := lat, i * 3 + 2 := z],
                  r_intensities =
                    (case (r_intensities st, rawIntensity) of
                       (Some ins, Some raw) \<Rightarrow>
                         Some (ins[i := fround (fdiv (ToNumber (rd raw srcIdx)) (Fin 65535))])
                     | _ \<Rightarrow> r_intensities st),
                  r_classifications =
                    (case (r_classifications st, rawClassification) of
                       (Some cls, Some raw) \<Rightarrow> Some (cls[i := ToUint8 (ToNumber (rd8 raw srcIdx))])
                     | _ \<Rightarrow> r_classifications st),
                  r_bounds = track_bounds lng lat z (r_bounds st)\<rparr>)"

text \<open>
  One round of the offset loop: the positions go into a \<^verbatim>\<open>Float32Array\<close>.
\<close>

definition offset_step :: "number list \<Rightarrow> number \<Rightarrow> number \<Rightarrow> nat \<Rightarrow> number list \<Rightarrow> number list" where
  "offset_step ll originLng originLat i ps =
     ps[i * 3 := fround (fsub (ToNumber (rd ll (i * 3))) originLng),
        i * 3 + 1 := fround (fsub (ToNumber (rd ll (i * 3 + 1))) originLat),
        i * 3 + 2 := fround (ToNumber (rd ll (i * 3 + 2)))]"

definition color_step :: "8 word list \<Rightarrow> nat \<Rightarrow> nat \<Rightarrow> nat \<Rightarrow> 8 word list \<Rightarrow> 8 word list" where
  "color_step rawColors channelSize step i cs =
     (let srcIdx = i * step;
          cs' = (if 3 \<le> channelSize then
                   cs[i * 4 := ToUint8 (ToNumber (rd8 rawColors (srcIdx * channelSize))),
                      i * 4 + 1 := ToUint8 (ToNumber (rd8 rawColors (srcIdx * channelSize + 1))),
                      i * 4 + 2 := ToUint8 (ToNumber (rd8 rawColors (srcIdx * channelSize + 2)))]
                 else cs)
      in cs'[i * 4 + 3 := ToUint8 (Fin 255)])"

text \<open>
  The buffers and the bounds before the reprojection loop: typed arrays are allocated
  filled with zeros, the optional ones only when the mesh has the attribute.
\<close>

definition initial_reprojection ::
  "nat \<Rightarrow> number list option \<Rightarrow> 8 word list option \<Rightarrow> Reprojection" where
  "initial_reprojection n rawIntensity rawClassification =
     \<lparr>lngLat = replicate (n * 3) (Fin 0),
      r_intensities =
        (case rawIntensity of Some raw \<Rightarrow> Some (replicate n (Fin 0)) | None \<Rightarrow> None),
      r_classifications =
        (case rawClassification of Some raw \<Rightarrow> Some (replicate n 0) | None \<Rightarrow> None),
      r_bounds = \<lparr>minX = PosInf, maxX = NegInf, minY = PosInf, maxY = NegInf,
                  minZ = PosInf, maxZ = NegInf\<rparr>\<rparr>"

text \<open>
  Steps 5 to 7 and the result: the origin is the midpoint of the bounds, the positions
  are the offsets from it, the colors are copied with the alpha byte set.
\<close>

definition finish_cloud ::
  "nat \<Rightarrow> nat \<Rightarrow> (8 word list \<times> nat) option \<Rightarrow> Reprojection \<Rightarrow> PointCloudData" where
  "finish_cloud n step rawColors st =
     (let b = r_bounds st;
          originLng = fdiv (fadd (minX b) (maxX b)) (Fin 2);
          originLat = fdiv (fadd (minY b) (maxY b)) (Fin 2);
          ps = fold (offset_step (lngLat st) originLng originLat) [0..<n]
                 (replicate (n * 3) (Fin 0));
          cs = (case rawColors of
                  None \<Rightarrow> None
                | Some (raw, channelSize) \<Rightarrow>
                    Some (fold (color_step raw channelSize step) [0..<n]
                            (replicate (n * 4) 0)))
      in \<lparr>positions = ps,
          coordinateOrigin = (originLng, originLat, Fin 0),
          colors = cs,
          intensities = r_intensities st,
          classifications = r_classifications st,
          pointCount = n,
          bounds = b\<rparr>)"

text \<open>
  The part of \<^verbatim>\<open>loadPointCloud\<close> after the decoding: subsampling, reprojection, bounds,
  origin, offsets and colors. Reading \<^verbatim>\<open>attributes.POSITION.value\<close> of a mesh without
  the attribute throws a \<^verbatim>\<open>TypeError\<close>; allocating a typed array of negative length
  throws a \<^verbatim>\<open>RangeError\<close>. The progress reports and the pauses between the chunks do
  not change the result and are left out.
\<close>

definition buildPointCloud ::
  "(jsval \<times> jsval \<Rightarrow> error + number \<times> number) \<Rightarrow> LASMesh \<Rightarrow> error + PointCloudData" where
  "buildPointCloud forward mesh =
     (let totalPoints = vertexCount (header mesh) in
      case attr_POSITION (attributes mesh) of
        None \<Rightarrow> Inl TypeError
      | Some rawPositions \<Rightarrow>
          let step = sample_step totalPoints;
              pointCount = sample_count totalPoints;
              rawColors = attr_COLOR_0 (attributes mesh);
              rawIntensity = attr_intensity (attributes mesh);
              rawClassification = attr_classification (attributes mesh)
          in if pointCount < 0 then Inl RangeError
             else
               let n = nat pointCount in
               case for_loop [0..<n]
                      (reproject_step forward rawPositions rawIntensity rawClassification
                         (nat step))
                      (initial_reprojection n rawIntensity rawClassification) of
                 Inl e \<Rightarrow> Inl e
               | Inr st \<Rightarrow> Inr (finish_cloud n (nat step) rawColors st))"

text \<open>
  \<^verbatim>\<open>loadPointCloud\<close> from the bytes of the file on: the header check, the external
  decoder \<open>decode\<close> (\<^verbatim>\<open>load\<close> with the \<^verbatim>\<open>LASLoader\<close>), then the builder. An error of
  any stage is the result: the \<^verbatim>\<open>catch\<close> block rethrows.
\<close>

definition loadPointCloud ::
  "(8 word list \<Rightarrow> error + LASMesh) \<Rightarrow> (jsval \<times> jsval \<Rightarrow> error + number \<times> number) \<Rightarrow>
   8 word list \<Rightarrow> error + PointCloudData" where
  "loadPointCloud decode forward arrayBuffer =
     (case checkHeader arrayBuffer of
        Inl e \<Rightarrow> Inl e
      | Inr patched \<Rightarrow>
          (case decode patched of
             Inl e \<Rightarrow> Inl e
           | Inr mesh \<Rightarrow> buildPointCloud forward mesh))"

section \<open>Example inputs\<close>

text \<open>
  A cloud of three points around the origin of the equator, at 10 m, 5 m and 30 m east
  of it, the second one half a meter north; no optional buffer.
\<close>

definition cloud3 :: PointCloudData where
  "cloud3 =
     \<lparr>positions =
        [Fin (10 / 111320), Fin 0, Fin 5,
         Fin (5 / 111320), Fin (1 / 222640), Fin 7,
         Fin (30 / 111320), Fin 0, Fin 1],
      coordinateOrigin = (Fin 0, Fin 0, Fin 0),
      colors = None,
      intensities = None,
      classifications = None,
      pointCount = 3,
      bounds = \<lparr>minX = Fin (5 / 111320), maxX = Fin (30 / 111320), minY = Fin 0,
                 maxY = Fin (1 / 222640), minZ = Fin 1, maxZ = Fin 7\<rparr>\<rparr>"

text \<open>
  A cloud of five points around the origin of the equator, with offsets in degrees: one
  degree east, half a degree east, three degrees east, one degree east and north, three
  degrees west and one south; no optional buffer.
\<close>

definition cloud5 :: PointCloudData where
  "cloud5 =
     \<lparr>positions =
        [Fin 1, Fin 0, Fin 5,
         Fin (1 / 2), Fin 0, Fin 7,
         Fin 3, Fin 0, Fin 1,
         Fin 1, Fin 1, Fin 2,
         Fin (- 3), Fin (- 1), Fin 4],
      coordinateOrigin = (Fin 0, Fin 0, Fin 0),
      colors = None,
      intensities = None,
      classifications = None,
      pointCount = 5,
      bounds = \<lparr>minX = Fin (- 3), maxX = Fin 3, minY = Fin (- 1), maxY = Fin 1,
                 minZ = Fin 1, maxZ = Fin 7\<rparr>\<rparr>"

text \<open>A profile point of this cloud, at a distance and an elevation.\<close>

definition cloud5_point :: "real \<Rightarrow> real \<Rightarrow> ProfilePoint" where
  "cloud5_point along z =
     \<lparr>distance = Fin along, elevation = Some (Fin z), classification = Some (Fin 0),
      intensity = Some (Fin 0), color = (Some (Fin 255), Some (Fin 255), Some (Fin 255))\<rparr>"


text \<open>View settings that hide class 6 (building).\<close>

definition view :: "ColorScheme \<Rightarrow> ViewSettings" where
  "view scheme =
     \<lparr>colorScheme = scheme, colormap = viridis, classificationVisibility = [6 \<mapsto> False]\<rparr>"

text \<open>
  Two stand-ins for the projection (the first divides both coordinates by 100000, the
  second returns them as they are), the first 105 bytes of a LAS 1.2 file with point
  format 3, an empty mesh, and a mesh of two points with all attributes together with
  the cloud built from it.
\<close>

definition scale_projection :: "jsval \<times> jsval \<Rightarrow> error + number \<times> number" where
  "scale_projection p = Inr (ToNumber (fst p) / Fin 100000, ToNumber (snd p) / Fin 100000)"


definition las_bytes :: "8 word list" where
  "las_bytes = replicate 24 0 @ [1, 2] @ replicate 78 0 @ [3]"

definition mesh0 :: LASMesh where
  "mesh0 =
     \<lparr>header = \<lparr>vertexCount = 0\<rparr>,
      attributes = \<lparr>attr_POSITION = Some [], attr_COLOR_0 = None, attr_intensity = None,
                    attr_classification = None\<rparr>\<rparr>"

definition empty_cloud :: PointCloudData where
  "empty_cloud =
     \<lparr>positions = [], coordinateOrigin = (NaN, NaN, Fin 0), colors = None,
      intensities = None, classifications = None, pointCount = 0,
      bounds = \<lparr>minX = PosInf, maxX = NegInf, minY = PosInf, maxY = NegInf,
                 minZ = PosInf, maxZ = NegInf\<rparr>\<rparr>"

definition mesh2 :: LASMesh where
  "mesh2 =
     \<lparr>header = \<lparr>vertexCount = 2\<rparr>,
      attributes =
        \<lparr>attr_POSITION = Some [Fin 100000, Fin 200000, Fin 5, Fin 300000, Fin 400000, Fin 9],
         attr_COLOR_0 = Some ([10, 20, 30, 40, 50, 60, 70, 80], 4),
         attr_intensity = Some [Fin 65535, Fin 0],
         attr_classification = Some [2, 6]\<rparr>\<rparr>"

definition cloud2 :: PointCloudData where
  "cloud2 =
     \<lparr>positions = [Fin (- 1), Fin (- 1), Fin 5, Fin 1, Fin 1, Fin 9],
      coordinateOrigin = (Fin 2, Fin 3, Fin 0),
      colors = Some [10, 20, 30, 255, 50, 60, 70, 255],
      intensities = Some [Fin 1, Fin 0],
      classifications = Some [2, 6],
      pointCount = 2,
      bounds = \<lparr>minX = Fin 1, maxX = Fin 3, minY = Fin 2, maxY = Fin 4,
                 minZ = Fin 5, maxZ = Fin 9\<rparr>\<rparr>"



text \<open>
  A mesh of one point whose elevation is \<^verbatim>\<open>NaN\<close> and one whose elevation is
  \<^verbatim>\<open>Infinity\<close>, each with the cloud built from it, and a mesh of 500001 points, point
  \<open>k\<close> at \<open>(3 k, 3 k + 1, 3 k + 2)\<close>.
\<close>

definition mesh_nan :: LASMesh where
  "mesh_nan =
     \<lparr>header = \<lparr>vertexCount = 1\<rparr>,
      attributes =
        \<lparr>attr_POSITION = Some [Fin 100000, Fin 200000, NaN], attr_COLOR_0 = None,
         attr_intensity = None, attr_classification = None\<rparr>\<rparr>"

definition cloud_nan :: PointCloudData where
  "cloud_nan =
     \<lparr>positions = [Fin 0, Fin 0, NaN],
      coordinateOrigin = (Fin 1, Fin 2, Fin 0),
      colors = None, intensities = None, classifications = None,
      pointCount = 1,
      bounds = \<lparr>minX = Fin 1, maxX = Fin 1, minY = Fin 2, maxY = Fin 2,
                 minZ = PosInf, maxZ = NegInf\<rparr>\<rparr>"

definition mesh_inf :: LASMesh where
  "mesh_inf =
     \<lparr>header = \<lparr>vertexCount = 1\<rparr>,
      attributes =
        \<lparr>attr_POSITION = Some [Fin 100000, Fin 200000, PosInf], attr_COLOR_0 = None,
         attr_intensity = None, attr_classification = None\<rparr>\<rparr>"

definition cloud_inf :: PointCloudData where
  "cloud_inf =
     \<lparr>positions = [Fin 0, Fin 0, PosInf],
      coordinateOrigin = (Fin 1, Fin 2, Fin 0),
      colors = None, intensities = None, classifications = None,
      pointCount = 1,
      bounds = \<lparr>minX = Fin 1, maxX = Fin 1, minY = Fin 2, maxY = Fin 2,
                 minZ = PosInf, maxZ = PosInf\<rparr>\<rparr>"


text \<open>
  A decoder that answers a given mesh, a mesh without the position attribute, and a mesh
  that declares a negative vertex count.
\<close>

definition stub_decoder :: "LASMesh \<Rightarrow> 8 word list \<Rightarrow> error + LASMesh" where
  "stub_decoder mesh buf = Inr mesh"

definition mesh_without_position :: LASMesh where
  "mesh_without_position =
     \<lparr>header = \<lparr>vertexCount = 2\<rparr>,
      attributes = \<lparr>attr_POSITION = None, attr_COLOR_0 = None, attr_intensity = None,
                    attr_classification = None\<rparr>\<rparr>"

definition mesh_negative :: LASMesh where
  "mesh_negative =
     \<lparr>header = \<lparr>vertexCount = - 3\<rparr>,
      attributes = \<lparr>attr_POSITION = Some [], attr_COLOR_0 = None, attr_intensity = None,
                    attr_classification = None\<rparr>\<rparr>"

section \<open>The corridor test in the words of the specification\<close>

text \<open>
  The specification projects the position of a point, in local meters and relative to
  the start of the corridor, onto the unit vector \<open>u\<close> of the axis (the signed distance)
  and onto its perpendicular \<open>n\<close> (the signed offset). A point is included if
  \<open>0 \<le> distance \<le> length\<close> and \<open>|offset| \<le> width / 2\<close>.
\<close>

definition dot :: "number \<times> number \<Rightarrow> number \<times> number \<Rightarrow> number" where
  "dot v w = fadd (fmul (fst v) (fst w)) (fmul (snd v) (snd w))"

text \<open>
  The local frame: degrees become meters at the latitude of the origin
  (\<open>111320\<close> per degree of latitude, \<open>111320 * cos\<close> of the origin latitude in radians
  per degree of longitude); \<open>u\<close> is the vector from start to end divided by its
  length. The numbers are doubles and every operation rounds.
\<close>

definition spec_frame :: "PointCloudData \<Rightarrow> number \<times> number \<Rightarrow> number \<times> number \<Rightarrow> Corridor" where
  "spec_frame data start endp =
     (case coordinateOrigin data of (originLng, originLat, originZ) \<Rightarrow>
        let mLat = Fin 111320;
            mLng = fmul (Fin 111320) (fcos (fdiv (fmul originLat Math_PI) (Fin 180)));
            s = (fmul (fsub (fst start) originLng) mLng, fmul (fsub (snd start) originLat) mLat);
            e = (fmul (fsub (fst endp) originLng) mLng, fmul (fsub (snd endp) originLat) mLat);
            axis = (fsub (fst e) (fst s), fsub (snd e) (snd s));
            length = fsqrt (dot axis axis)
        in \<lparr>metersPerDegLng = mLng, metersPerDegLat = mLat, x1 = fst s, y1 = snd s,
            ux = fdiv (fst axis) length, uy = fdiv (snd axis) length, len = length\<rparr>)"

text \<open>
  The position of point \<open>i\<close> in local meters, relative to the start of the corridor;
  its projections on \<open>u\<close> and on the perpendicular \<open>n = (- u\<^sub>y, u\<^sub>x)\<close>; and the test.
\<close>

definition spec_local :: "PointCloudData \<Rightarrow> Corridor \<Rightarrow> nat \<Rightarrow> number \<times> number" where
  "spec_local data c i =
     (fsub (fmul (ToNumber (rd (positions data) (i * 3))) (metersPerDegLng c)) (x1 c),
      fsub (fmul (ToNumber (rd (positions data) (i * 3 + 1))) (metersPerDegLat c)) (y1 c))"

definition spec_distance :: "PointCloudData \<Rightarrow> Corridor \<Rightarrow> nat \<Rightarrow> number" where
  "spec_distance data c i = dot (spec_local data c i) (ux c, uy c)"

definition spec_offset :: "PointCloudData \<Rightarrow> Corridor \<Rightarrow> nat \<Rightarrow> number" where
  "spec_offset data c i = dot (spec_local data c i) (- uy c, ux c)"

definition spec_included :: "PointCloudData \<Rightarrow> Corridor \<Rightarrow> number \<Rightarrow> nat \<Rightarrow> bool" where
  "spec_included data c width i =
     (Fin 0 \<le> spec_distance data c i \<and> spec_distance data c i \<le> len c
      \<and> \<bar>spec_offset data c i\<bar> \<le> fdiv width (Fin 2))"

text \<open>
  The profile point of point \<open>i\<close>: its distance along the axis, its elevation, its
  classification code, its intensity and its color, with the values 0, 0 and
  \<open>[255, 255, 255]\<close> where the cloud has no such buffer.
\<close>

definition spec_point :: "PointCloudData \<Rightarrow> Corridor \<Rightarrow> nat \<Rightarrow> ProfilePoint" where
  "spec_point data c i =
     \<lparr>distance = spec_distance data c i,
      elevation = rd (positions data) (i * 3 + 2),
      classification =
        (case classifications data of None \<Rightarrow> Some (Fin 0) | Some codes \<Rightarrow> rd8 codes i),
      intensity =
        (case intensities data of None \<Rightarrow> Some (Fin 0) | Some values \<Rightarrow> rd values i),
      color =
        (case colors data of
           None \<Rightarrow> (Some (Fin 255), Some (Fin 255), Some (Fin 255))
         | Some rgba \<Rightarrow> (rd8 rgba (i * 4), rd8 rgba (i * 4 + 1), rd8 rgba (i * 4 + 2)))\<rparr>"

text \<open>The points that pass the test, in the order of their indices.\<close>

definition spec_profile ::
  "PointCloudData \<Rightarrow> number \<times> number \<Rightarrow> number \<times> number \<Rightarrow> number \<Rightarrow> ProfilePoint list" where
  "spec_profile data start endp width =
     (let c = spec_frame data start endp in
      map (spec_point data c) (filter (spec_included data c width) [0..<pointCount data]))"

definition width_or_default :: "jsval \<Rightarrow> number" where
  "width_or_default width = (case width of None \<Rightarrow> Fin 2 | Some w \<Rightarrow> w)"

section \<open>The invariant of the data model in the words of the specification\<close>

text \<open>
  The reprojected point of index \<open>i\<close>: the projection of the source point
  \<open>i * step\<close>, with its elevation; \<open>None\<close> when the projection throws.
\<close>

definition reproject_point ::
  "(jsval \<times> jsval \<Rightarrow> error + number \<times> number) \<Rightarrow> number list \<Rightarrow> nat \<Rightarrow> nat \<Rightarrow>
   (number \<times> number \<times> number) option" where
  "reproject_point forward rawPositions step i =
     (case forward (rd rawPositions (i * step * 3), rd rawPositions (i * step * 3 + 1)) of
        Inl e \<Rightarrow> None
      | Inr (lng, lat) \<Rightarrow> Some (lng, lat, ToNumber (rd rawPositions (i * step * 3 + 2))))"

text \<open>The same, where the projection returns.\<close>

definition sample_pt ::
  "(jsval \<times> jsval \<Rightarrow> error + number \<times> number) \<Rightarrow> number list \<Rightarrow> nat \<Rightarrow> nat \<Rightarrow>
   number \<times> number \<times> number" where
  "sample_pt forward rawPositions step i = the (reproject_point forward rawPositions step i)"

text \<open>The reprojected points of a mesh, in the order of the output.\<close>

definition reprojected ::
  "(jsval \<times> jsval \<Rightarrow> error + number \<times> number) \<Rightarrow> LASMesh \<Rightarrow> (number \<times> number \<times> number) list" where
  "reprojected forward mesh =
     (case attr_POSITION (attributes mesh) of
        None \<Rightarrow> []
      | Some raw \<Rightarrow>
          map (sample_pt forward raw (nat (sample_step (vertexCount (header mesh)))))
            [0..<nat (sample_count (vertexCount (header mesh)))])"

text \<open>Every buffer that is present has one entry per point (three, four for colors).\<close>

definition spec_buffer_lengths :: "PointCloudData \<Rightarrow> bool" where
  "spec_buffer_lengths d =
     (length (positions d) = 3 * pointCount d
      \<and> (case colors d of None \<Rightarrow> True | Some cs \<Rightarrow> length cs = 4 * pointCount d)
      \<and> (case intensities d of None \<Rightarrow> True | Some ins \<Rightarrow> length ins = pointCount d)
      \<and> (case classifications d of None \<Rightarrow> True | Some cls \<Rightarrow> length cls = pointCount d))"

text \<open>
  The bounds enclose the points tightly: no point lies outside on any axis, and each of
  the six bounds is attained by some point.
\<close>

definition spec_tight_bounds :: "(number \<times> number \<times> number) list \<Rightarrow> Bounds \<Rightarrow> bool" where
  "spec_tight_bounds pts b =
     (list_all (\<lambda>(x, y, z). minX b \<le> x \<and> x \<le> maxX b \<and> minY b \<le> y \<and> y \<le> maxY b
                  \<and> minZ b \<le> z \<and> z \<le> maxZ b) pts
      \<and> list_ex (\<lambda>(x, y, z). x = minX b) pts \<and> list_ex (\<lambda>(x, y, z). x = maxX b) pts
      \<and> list_ex (\<lambda>(x, y, z). y = minY b) pts \<and> list_ex (\<lambda>(x, y, z). y = maxY b) pts
      \<and> list_ex (\<lambda>(x, y, z). z = minZ b) pts \<and> list_ex (\<lambda>(x, y, z). z = maxZ b) pts)"

text \<open>
  The origin is the midpoint of the bounds in X and Y, in double arithmetic, and 0
  in Z.
\<close>

definition spec_origin_midpoint :: "PointCloudData \<Rightarrow> bool" where
  "spec_origin_midpoint d =
     (coordinateOrigin d =
        (fdiv (fadd (minX (bounds d)) (maxX (bounds d))) (Fin 2),
         fdiv (fadd (minY (bounds d)) (maxY (bounds d))) (Fin 2), Fin 0))"

section \<open>Auxiliary definitions\<close>

text \<open>The alpha byte that the classification scheme gives point \<open>i\<close>.\<close>

definition alpha_of :: "8 word list \<Rightarrow> (nat \<rightharpoonup> bool) \<Rightarrow> nat \<Rightarrow> 8 word" where
  "alpha_of cls vis i =
     (if i < length cls \<and> vis (unat (cls ! i)) = Some False then 0 else 255)"

text \<open>A double: a finite number on the grid of the multiples of \<open>2 ^ - 1074\<close>.\<close>

definition is_double :: "number \<Rightarrow> bool" where
  "is_double a = (\<exists>k::int. a = Fin (real_of_int k * 2 powr real_of_int (- 1074)))"

text \<open>The running minimum and maximum of the first \<open>k\<close> values of a sequence.\<close>

definition run_min :: "(nat \<Rightarrow> number) \<Rightarrow> nat \<Rightarrow> number" where
  "run_min f k = fold (\<lambda>i m. if f i < m then f i else m) [0..<k] PosInf"

definition run_max :: "(nat \<Rightarrow> number) \<Rightarrow> nat \<Rightarrow> number" where
  "run_max f k = fold (\<lambda>i m. if m < f i then f i else m) [0..<k] NegInf"

text \<open>The invariant of the reprojection loop after \<open>k\<close> rounds.\<close>

definition loop_inv ::
  "(jsval \<times> jsval \<Rightarrow> error + number \<times> number) \<Rightarrow> number list \<Rightarrow> number list option \<Rightarrow>
   8 word list option \<Rightarrow> nat \<Rightarrow> nat \<Rightarrow> nat \<Rightarrow> Reprojection \<Rightarrow> bool" where
  "loop_inv forward raw rawI rawC step n k st =
     (length (lngLat st) = n * 3
      \<and> (\<forall>i<k. \<exists>lng lat z.
             reproject_point forward raw step i = Some (lng, lat, z)
             \<and> lngLat st ! (i * 3) = lng \<and> lngLat st ! (i * 3 + 1) = lat
             \<and> lngLat st ! (i * 3 + 2) = z)
      \<and> minX (r_bounds st) = run_min (\<lambda>i. fst (sample_pt forward raw step i)) k
      \<and> maxX (r_bounds st) = run_max (\<lambda>i. fst (sample_pt forward raw step i)) k
      \<and> minY (r_bounds st) = run_min (\<lambda>i. fst (snd (sample_pt forward raw step i))) k
      \<and> maxY (r_bounds st) = run_max (\<lambda>i. fst (snd (sample_pt forward raw step i))) k
      \<and> minZ (r_bounds st) = run_min (\<lambda>i. snd (snd (sample_pt forward raw step i))) k
      \<and> maxZ (r_bounds st) = run_max (\<lambda>i. snd (snd (sample_pt forward raw step i))) k
      \<and> (case rawI of
            None \<Rightarrow> r_intensities st = None
          | Some r \<Rightarrow>
              (\<exists>ins. r_intensities st = Some ins \<and> length ins = n
                 \<and> (\<forall>i<k. ins ! i = fround (fdiv (ToNumber (rd r (i * step))) (Fin 65535)))))
      \<and> (case rawC of
            None \<Rightarrow> r_classifications st = None
          | Some r \<Rightarrow>
              (\<exists>cls. r_classifications st = Some cls \<and> length cls = n
                 \<and> (\<forall>i<k. cls ! i = ToUint8 (ToNumber (rd8 r (i * step)))))))"

section \<open>Properties of colormaps.ts\<close>

lemmas number_simps =
  zero_number_def one_number_def minus_number_def Let_def

text \<open>
  C5. Sampling a registered colormap at the position of one of its stops returns the
  color of that stop; at 0.0 it returns the color of the first stop and at 1.0 the color
  of the last stop.
\<close>

theorem sampleColormap_exact_stop:
  "(s \<in> set (COLORMAPS name) \<longrightarrow> sampleColormap name (fst s) = stop_color s)
   \<and> sampleColormap name (Fin 0) = stop_color (hd (COLORMAPS name))
   \<and> sampleColormap name (Fin 1) = stop_color (last (COLORMAPS name))"
proof (intro conjI impI)
  assume "s \<in> set (COLORMAPS name)"
  then show "sampleColormap name (fst s) = stop_color s"
    apply (cases name)
    apply (simp_all add: stop_def)
    apply (elim disjE; simp add: sampleColormap_def stop_def number_simps)+
    done
next
  show "sampleColormap name (Fin 0) = stop_color (hd (COLORMAPS name))"
    by (cases name) (simp_all add: sampleColormap_def stop_def number_simps)
next
  show "sampleColormap name (Fin 1) = stop_color (last (COLORMAPS name))"
    by (cases name) (simp_all add: sampleColormap_def stop_def number_simps)
qed

theorem sampleColormap_exact_stop_witness:
  "stop 0.1 72 35 116 \<in> set (COLORMAPS viridis)
   \<and> sampleColormap viridis (Fin 0.1) = (Fin 72, Fin 35, Fin 116)
   \<and> sampleColormap viridis (Fin 0) = (Fin 68, Fin 1, Fin 84)
   \<and> sampleColormap viridis (Fin 1) = (Fin 253, Fin 231, Fin 37)"
  using sampleColormap_exact_stop [of "stop 0.1 72 35 116" viridis]
  by (simp add: stop_def)

section \<open>Properties of colorize.ts\<close>

text \<open>A call that returns anything is not the fallback of the rgb scheme.\<close>

lemma colorizePoints_returns_not_rgb_fallback:
  assumes "colorizePoints d s = Some y"
  shows "\<not> (colors d = None \<and> colorScheme s = RGB)"
proof (rule colorizePoints.raw_induct
    [where P = "\<lambda>d s y. \<not> (colors d = None \<and> colorScheme s = RGB)", OF _ assms], goal_cases)
  case (1 f data settings r)
  show ?case
  proof
    assume a: "colors data = None \<and> colorScheme settings = RGB"
    with 1(2) have "f data settings = Some r" by (simp add: Let_def)
    from 1(1) [OF this] a show False by simp
  qed
qed

lemma colorizePoints_rgb_no_colors:
  "colors d = None \<Longrightarrow> colorScheme s = RGB \<Longrightarrow> colorizePoints d s = None"
  using colorizePoints_returns_not_rgb_fallback [of d s]
  by (cases "colorizePoints d s") auto

text \<open>
  C1. On the example cloud, which has no color buffer, the call with the rgb scheme never
  returns a buffer (it calls itself with unchanged settings), while the call with the
  elevation scheme returns one. The claimed fallback to the elevation output does not
  take place.
\<close>

theorem colorizePoints_rgb_fallback_never_returns:
  "colorizePoints cloud3 (view RGB) = None
   \<and> colorizePoints cloud3 (view Elevation) =
       Some (Inr [57, 182, 119, 255, 253, 231, 37, 255, 68, 1, 84, 255])"
proof
  show "colorizePoints cloud3 (view RGB) = None"
    by (rule colorizePoints_rgb_no_colors) (simp_all add: cloud3_def view_def)
  show "colorizePoints cloud3 (view Elevation) =
       Some (Inr [57, 182, 119, 255, 253, 231, 37, 255, 68, 1, 84, 255])"
    by code_simp
qed

lemma length_put_rgba [simp]: "length (put_rgba cs i r g b a) = length cs"
  by (simp add: put_rgba_def)

lemma put_rgba_alpha:
  "i * 4 + 3 < length cs \<Longrightarrow> put_rgba cs i r g b a ! (i * 4 + 3) = ToUint8 a"
  by (simp add: put_rgba_def)

lemma put_rgba_other:
  "j < i * 4 \<or> i * 4 + 3 < j \<Longrightarrow> put_rgba cs i r g b a ! j = cs ! j"
  by (auto simp add: put_rgba_def)

lemma length_classification_step [simp]:
  "length (classification_step cls vis i cs) = length cs"
  by (simp add: classification_step_def Let_def split: option.splits)

lemma classification_step_alpha:
  "i * 4 + 3 < length cs \<Longrightarrow>
   classification_step cls vis i cs ! (i * 4 + 3) = alpha_of cls vis i"
  by (auto simp add: classification_step_def alpha_of_def Let_def put_rgba_alpha
      split: option.splits)

lemma classification_step_other:
  "j < i * 4 \<or> i * 4 + 3 < j \<Longrightarrow> classification_step cls vis i cs ! j = cs ! j"
  by (auto simp add: classification_step_def Let_def put_rgba_other split: option.splits)

lemma fold_classification_step:
  "k \<le> n \<Longrightarrow> length cs0 = n * 4 \<Longrightarrow>
   length (fold (classification_step cls vis) [0..<k] cs0) = n * 4
   \<and> (\<forall>i<k. fold (classification_step cls vis) [0..<k] cs0 ! (i * 4 + 3) = alpha_of cls vis i)"
proof (induction k)
  case 0
  then show ?case by simp
next
  case (Suc k)
  then have IH: "length (fold (classification_step cls vis) [0..<k] cs0) = n * 4"
    "\<And>i. i < k \<Longrightarrow>
       fold (classification_step cls vis) [0..<k] cs0 ! (i * 4 + 3) = alpha_of cls vis i"
    by simp_all
  show ?case
  proof (intro conjI allI impI)
    show "length (fold (classification_step cls vis) [0..<Suc k] cs0) = n * 4"
      using IH by simp
  next
    fix i assume "i < Suc k"
    show "fold (classification_step cls vis) [0..<Suc k] cs0 ! (i * 4 + 3) = alpha_of cls vis i"
    proof (cases "i = k")
      case True
      with Suc.prems IH show ?thesis by (simp add: classification_step_alpha)
    next
      case False
      with \<open>i < Suc k\<close> have "i < k" by simp
      then have "i * 4 + 3 < k * 4" by simp
      with IH(2) [OF \<open>i < k\<close>] show ?thesis by (simp add: classification_step_other)
    qed
  qed
qed

text \<open>
  C7. Under the classification scheme, on a cloud with a classification buffer, the call
  returns a buffer of \<open>4 * pointCount\<close> bytes in which the alpha byte of a point is 0
  when the visibility flag of its code is \<open>False\<close>, and 255 for every other point.
\<close>

theorem colorizePoints_classification_alpha:
  assumes "classifications d = Some cls" and "colorScheme s = Classification"
  shows "\<exists>buf. colorizePoints d s = Some (Inr buf)
           \<and> length buf = 4 * pointCount d
           \<and> (\<forall>i<pointCount d.
                 buf ! (4 * i + 3) =
                   (if i < length cls \<and> classificationVisibility s (unat (cls ! i)) = Some False
                    then 0 else 255))"
proof -
  let ?buf = "colorize_classification d cls (classificationVisibility s)
                (replicate (pointCount d * 4) 0)"
  have run: "colorizePoints d s = Some (Inr ?buf)"
    using assms by (simp add: colorizePoints.simps Let_def)
  have inv: "length ?buf = pointCount d * 4
     \<and> (\<forall>i<pointCount d. ?buf ! (i * 4 + 3) = alpha_of cls (classificationVisibility s) i)"
    unfolding colorize_classification_def
    by (rule fold_classification_step) simp_all
  have "length ?buf = 4 * pointCount d"
    using inv by (simp add: mult.commute)
  moreover have "\<forall>i<pointCount d.
      ?buf ! (4 * i + 3) =
        (if i < length cls \<and> classificationVisibility s (unat (cls ! i)) = Some False
         then 0 else 255)"
    using inv by (simp add: alpha_of_def mult.commute)
  ultimately show ?thesis
    using run by blast
qed

theorem colorizePoints_classification_alpha_witness:
  "classifications (cloud3\<lparr>classifications := Some [2, 6, 2]\<rparr>) = Some [2, 6, 2]
   \<and> colorScheme (view Classification) = Classification
   \<and> (\<exists>buf. colorizePoints (cloud3\<lparr>classifications := Some [2, 6, 2]\<rparr>) (view Classification)
               = Some (Inr buf)
         \<and> length buf = 12 \<and> buf ! 3 = 255 \<and> buf ! 7 = 0 \<and> buf ! 11 = 255)"
proof -
  have h1: "classifications (cloud3\<lparr>classifications := Some [2, 6, 2]\<rparr>) = Some [2, 6, 2]"
    by simp
  have h2: "colorScheme (view Classification) = Classification"
    by (simp add: view_def)
  from colorizePoints_classification_alpha [OF h1 h2]
  obtain buf where buf:
    "colorizePoints (cloud3\<lparr>classifications := Some [2, 6, 2]\<rparr>) (view Classification)
       = Some (Inr buf)"
    "length buf = 4 * pointCount (cloud3\<lparr>classifications := Some [2, 6, 2]\<rparr>)"
    "\<forall>i<pointCount (cloud3\<lparr>classifications := Some [2, 6, 2]\<rparr>).
       buf ! (4 * i + 3) =
         (if i < length [2, 6, 2 :: 8 word]
             \<and> classificationVisibility (view Classification) (unat ([2, 6, 2 :: 8 word] ! i))
                 = Some False
          then 0 else 255)"
    by blast
  have pc: "pointCount (cloud3\<lparr>classifications := Some [2, 6, 2]\<rparr>) = 3"
    by (simp add: cloud3_def)
  have "buf ! 3 = 255"
    using buf(3) [unfolded pc, rule_format, of 0] by (simp add: view_def)
  moreover have "buf ! 7 = 0"
    using buf(3) [unfolded pc, rule_format, of 1] by (simp add: view_def)
  moreover have "buf ! 11 = 255"
    using buf(3) [unfolded pc, rule_format, of 2] by (simp add: view_def)
  moreover have "length buf = 12"
    using buf(2) pc by simp
  ultimately show ?thesis
    using h1 h2 buf(1) by blast
qed

section \<open>Properties of the rounding\<close>

lemma rne_of_int [simp]: "rne (of_int k) = k"
  by (simp add: rne_def)



lemma round_binary_0 [simp]: "round_binary p emin emax 0 = Fin 0"
  by (simp add: round_binary_def)

lemma round_binary_not_NaN [simp]: "round_binary p emin emax x \<noteq> NaN"
  by (simp add: round_binary_def Let_def)




text \<open>Every finite result is a multiple of the smallest positive value of the format.\<close>

lemma round_binary_grid:
  assumes "round_binary p emin emax x = Fin y"
  shows "\<exists>k::int. y = real_of_int k * 2 powr real_of_int (emin - int p + 1)"
proof (cases "x = 0")
  case True
  with assms have "y = 0" by simp
  then show ?thesis by (intro exI [of _ 0]) simp
next
  case False
  let ?e = "max emin \<lfloor>log 2 \<bar>x\<bar>\<rfloor>"
  let ?q = "2 powr real_of_int (?e - int p + 1)"
  from assms False have y: "y = real_of_int (rne (x / ?q)) * ?q"
    by (simp add: round_binary_def Let_def split: if_splits)
  have "0 \<le> ?e - emin" by simp
  then obtain n where n: "?e - emin = int n"
    using nonneg_int_cases by blast
  have "?q = 2 powr real_of_int (int n) * 2 powr real_of_int (emin - int p + 1)"
    unfolding powr_add [symmetric] using n by (simp add: algebra_simps)
  also have "2 powr real_of_int (int n) = real_of_int (2 ^ n)"
    by (simp add: powr_realpow)
  finally have "y = real_of_int (rne (x / ?q) * 2 ^ n) * 2 powr real_of_int (emin - int p + 1)"
    using y by simp
  then show ?thesis by blast
qed

text \<open>Integers below \<open>2 ^ p\<close> in absolute value are values of the format.\<close>

lemma round_binary_int:
  assumes "\<bar>n\<bar> < 2 ^ p" and "emin \<le> 0" and "int p \<le> emax + 1" and "1 \<le> p"
  shows "round_binary p emin emax (real_of_int n) = Fin (real_of_int n)"
proof (cases "n = 0")
  case True
  then show ?thesis by simp
next
  case False
  let ?x = "real_of_int n"
  let ?L = "\<lfloor>log 2 \<bar>?x\<bar>\<rfloor>"
  have x1: "1 \<le> \<bar>?x\<bar>" using False by (simp flip: of_int_abs)
  have xp: "\<bar>?x\<bar> < 2 ^ p" using assms(1) by (metis of_int_abs of_int_less_iff of_int_numeral of_int_power)
  have L0: "0 \<le> ?L" using x1 by simp
  have "log 2 \<bar>?x\<bar> < real p"
    using xp x1 by (simp add: log_less_iff powr_realpow)
  then have Lp: "?L < int p" by (simp add: floor_less_iff)
  then obtain k where k: "int p - 1 - ?L = int k"
    using nonneg_int_cases [of "int p - 1 - ?L"] by auto
  have "emin \<le> ?L" using L0 assms(2) by linarith
  then have e: "max emin ?L = ?L" by (rule max_absorb2)
  let ?q = "2 powr real_of_int (?L - int p + 1)"
  have "?L - int p + 1 = - int k" using k by simp
  then have q: "?q = 1 / 2 ^ k"
    by (simp add: powr_minus powr_realpow inverse_eq_divide)
  have "?x / ?q = real_of_int (n * 2 ^ k)" unfolding q by simp
  then have r: "rne (?x / ?q) = n * 2 ^ k" by (metis rne_of_int)
  have y: "real_of_int (rne (?x / ?q)) * ?q = ?x" unfolding r unfolding q by simp
  have "(2::real) ^ p \<le> 2 powr real_of_int (emax + 1)"
  proof -
    have "(2::real) ^ p = 2 powr real_of_int (int p)" by (simp add: powr_realpow)
    also have "\<dots> \<le> 2 powr real_of_int (emax + 1)"
      using assms(3) by (simp add: powr_le_cancel_iff del: of_int_of_nat_eq)
    finally show ?thesis .
  qed
  with xp have "\<not> 2 powr real_of_int (emax + 1) \<le> \<bar>?x\<bar>" by linarith
  moreover have "?x \<noteq> 0" using False by simp
  ultimately show ?thesis
    unfolding round_binary_def Let_def e y by (simp only: if_False)
qed

text \<open>The integers that the examples use are values of the format.\<close>

lemma round_binary_1 [simp]:
  "emin \<le> 0 \<Longrightarrow> int p \<le> emax + 1 \<Longrightarrow> 1 \<le> p \<Longrightarrow> round_binary p emin emax 1 = Fin 1"
  using round_binary_int [of 1 p emin emax] by simp

lemma round_binary_neg_1 [simp]:
  "emin \<le> 0 \<Longrightarrow> int p \<le> emax + 1 \<Longrightarrow> 1 \<le> p \<Longrightarrow>
   round_binary p emin emax (- 1) = Fin (- 1)"
  using round_binary_int [of "- 1" p emin emax] by simp

lemma round_binary_numeral [simp]:
  "(numeral k :: int) < 2 ^ p \<Longrightarrow> emin \<le> 0 \<Longrightarrow> int p \<le> emax + 1 \<Longrightarrow> 1 \<le> p \<Longrightarrow>
   round_binary p emin emax (numeral k) = Fin (numeral k)"
  using round_binary_int [of "numeral k" p emin emax] by simp

lemma round_binary_neg_numeral [simp]:
  "(numeral k :: int) < 2 ^ p \<Longrightarrow> emin \<le> 0 \<Longrightarrow> int p \<le> emax + 1 \<Longrightarrow> 1 \<le> p \<Longrightarrow>
   round_binary p emin emax (- numeral k) = Fin (- numeral k)"
  using round_binary_int [of "- numeral k" p emin emax] by simp

lemma rne_unique: "\<bar>y - real_of_int k\<bar> < 1 / 2 \<Longrightarrow> rne y = k"
proof -
  assume a: "\<bar>y - real_of_int k\<bar> < 1 / 2"
  show ?thesis
  proof (cases "real_of_int k \<le> y")
    case True
    with a have "\<lfloor>y\<rfloor> = k" by (intro floor_unique) linarith+
    with a True show ?thesis by (simp add: rne_def Let_def)
  next
    case False
    have k1: "real_of_int (k - 1) = real_of_int k - 1" by simp
    have "real_of_int (k - 1) \<le> y" "y < real_of_int (k - 1) + 1"
      using a False unfolding k1 by linarith+
    then have f: "\<lfloor>y\<rfloor> = k - 1" by (rule floor_unique)
    have "1 / 2 < y - real_of_int (k - 1)" using a False unfolding k1 by linarith
    with f show ?thesis unfolding rne_def Let_def by simp
  qed
qed

text \<open>
  A number in the binade of exponent \<open>e\<close> that is nearer than half a unit to the
  multiple \<open>k\<close> of the unit is rounded to it.
\<close>

lemma round_binary_nearest:
  assumes lo: "2 powr real_of_int e \<le> \<bar>x\<bar>" and hi: "\<bar>x\<bar> < 2 powr real_of_int (e + 1)"
    and e: "emin \<le> e" "e < emax" and p: "1 \<le> p"
    and k: "\<bar>x / 2 powr real_of_int (e - int p + 1) - real_of_int k\<bar> < 1 / 2"
  shows "round_binary p emin emax x = Fin (real_of_int k * 2 powr real_of_int (e - int p + 1))"
proof -
  let ?q = "2 powr real_of_int (e - int p + 1)"
  have q: "0 < ?q" by simp
  have x0: "x \<noteq> 0" using lo by (smt (verit) powr_gt_zero)
  then have ax: "0 < \<bar>x\<bar>" by simp
  have L: "\<lfloor>log 2 \<bar>x\<bar>\<rfloor> = e"
    using lo hi ax floor_log_eq_powr_iff [of "\<bar>x\<bar>" 2 e] by simp
  have m: "max emin \<lfloor>log 2 \<bar>x\<bar>\<rfloor> = e"
    unfolding L using e(1) by (rule max_absorb2)
  have r: "rne (x / ?q) = k"
    using k by (rule rne_unique)
  have "\<bar>real_of_int k\<bar> < \<bar>x / ?q\<bar> + 1 / 2"
    using k by linarith
  also have "\<bar>x / ?q\<bar> = \<bar>x\<bar> / ?q"
    using q by (simp add: abs_divide)
  also have "\<bar>x\<bar> / ?q < 2 powr real_of_int (e + 1) / ?q"
    using hi q by (simp add: divide_strict_right_mono)
  also have "2 powr real_of_int (e + 1) / ?q = 2 powr real_of_int (int p)"
    by (simp flip: powr_diff)
  also have "\<dots> = 2 ^ p"
    by (simp add: powr_realpow)
  finally have "\<bar>real_of_int k\<bar> < 2 ^ p + 1 / 2" by simp
  then have "real_of_int \<bar>k\<bar> < real_of_int (2 ^ p) + 1 / 2" by simp
  then have "\<bar>k\<bar> \<le> 2 ^ p" by linarith
  then have "\<bar>real_of_int k\<bar> \<le> 2 ^ p"
    by (metis of_int_abs of_int_le_iff of_int_numeral of_int_power)
  then have "\<bar>real_of_int k\<bar> * ?q \<le> 2 ^ p * ?q"
    using q by (simp add: mult_right_mono)
  also have "2 ^ p * ?q = 2 powr real_of_int (e + 1)"
  proof -
    have "(2::real) ^ p = 2 powr real_of_int (int p)" by (simp add: powr_realpow)
    then show ?thesis by (simp flip: powr_add)
  qed
  also have "\<dots> < 2 powr real_of_int (emax + 1)"
    using e(2) by (simp add: powr_less_cancel_iff)
  finally have "\<not> 2 powr real_of_int (emax + 1) \<le> \<bar>real_of_int k * ?q\<bar>"
    using q by (simp add: abs_mult)
  then show ?thesis
    unfolding round_binary_def Let_def m r using x0 by (simp only: if_False)
qed

text \<open>A rounded result is \<^verbatim>\<open>NaN\<close>, an infinity or a double.\<close>

lemma fl_NaN_iff [simp]: "fl a = NaN \<longleftrightarrow> a = NaN"
  by (cases a) simp_all

lemma fl_cases: "fl a = NaN \<or> fl a = PosInf \<or> fl a = NegInf \<or> is_double (fl a)"
proof (cases a)
  case (Fin x)
  show ?thesis
  proof (cases "fl a")
    case (Fin y)
    with \<open>a = Fin x\<close> have "round_binary 53 (- 1022) 1023 x = Fin y" by simp
    from round_binary_grid [OF this] Fin show ?thesis
      by (simp add: is_double_def)
  qed simp_all
qed simp_all

lemma is_double_zero [simp]: "is_double (Fin 0)"
  unfolding is_double_def by (intro exI [of _ 0]) simp

lemma is_doubleE: "is_double a \<Longrightarrow> (\<And>r. a = Fin r \<Longrightarrow> P) \<Longrightarrow> P"
  by (auto simp add: is_double_def)


section \<open>Properties of cross-section.ts\<close>

lemma spec_distance_eq: "spec_distance d c i = point_dist d c i"
  by (simp add: spec_distance_def point_dist_def spec_local_def dot_def Let_def)

lemma spec_offset_eq: "spec_offset d c i = point_offset d c i"
  by (simp add: spec_offset_def point_offset_def spec_local_def dot_def Let_def)

lemma spec_point_eq: "spec_point d c i = profile_point d i (point_dist d c i)"
  by (simp add: spec_point_def profile_point_def spec_distance_eq)

lemma fold_profile_step:
  "fold (profile_step d c hw) is acc =
   acc @ map (spec_point d c)
           (filter (\<lambda>i. Fin 0 \<le> spec_distance d c i \<and> spec_distance d c i \<le> len c
                        \<and> \<bar>spec_offset d c i\<bar> \<le> hw) is)"
  by (induction "is" arbitrary: acc)
     (simp_all add: profile_step_def Let_def spec_distance_eq spec_offset_eq spec_point_eq)

lemma mset_insert_by: "mset (insert_by cmp x xs) = add_mset x (mset xs)"
  by (induction xs) simp_all

lemma mset_Array_sort: "mset (Array_sort cmp xs) = mset xs"
  by (induction xs) (simp_all add: Array_sort_def mset_insert_by)


lemma set_Array_sort: "set (Array_sort cmp xs) = set xs"
  using mset_Array_sort [of cmp xs, THEN arg_cong, of set_mset] by simp



text \<open>Arithmetic of the corridor frame.\<close>

lemma times_NaN [simp]: "a * NaN = NaN" "NaN * a = NaN"
  by (cases a; simp)+

lemma plus_NaN [simp]: "a + NaN = NaN" "NaN + a = NaN"
  by (cases a; simp)+

lemma divide_NaN [simp]: "a / NaN = NaN" "NaN / a = NaN"
  by (cases a; simp)+

lemma not_le_NaN [simp]: "\<not> a \<le> NaN" "\<not> NaN \<le> a"
  by (cases a; simp)+

lemma fmul_zero_or_NaN:
  "u = Fin 0 \<or> u = NaN \<Longrightarrow> fmul v u = Fin 0 \<or> fmul v u = NaN"
  by (cases v) (auto simp add: fmul_def)

lemma fadd_zero_or_NaN:
  "a = Fin 0 \<or> a = NaN \<Longrightarrow> b = Fin 0 \<or> b = NaN \<Longrightarrow> fadd a b = Fin 0 \<or> fadd a b = NaN"
  by (auto simp add: fadd_def)

lemma fdiv_PosInf: "fdiv a PosInf = Fin 0 \<or> fdiv a PosInf = NaN"
  by (cases a) (simp_all add: fdiv_def)

lemma fdiv_zero: "fdiv a (Fin 0) = NaN \<or> fdiv a (Fin 0) = PosInf \<or> fdiv a (Fin 0) = NegInf"
  by (cases a) (simp_all add: fdiv_def)

lemma fmul_special:
  "u = NaN \<or> u = PosInf \<or> u = NegInf \<Longrightarrow>
   fmul v u = NaN \<or> fmul v u = PosInf \<or> fmul v u = NegInf"
  by (cases v; elim disjE; simp add: fmul_def)

lemma fadd_special:
  "a = NaN \<or> a = PosInf \<or> a = NegInf \<Longrightarrow> b = NaN \<or> b = PosInf \<or> b = NegInf \<Longrightarrow>
   fadd a b = NaN \<or> fadd a b = PosInf \<or> fadd a b = NegInf"
  by (auto simp add: fadd_def)

lemma corridor_frame:
  "\<exists>dx dy. ux (corridor d s e) = fdiv dx (len (corridor d s e))
     \<and> uy (corridor d s e) = fdiv dy (len (corridor d s e))"
  by (cases "coordinateOrigin d") (auto simp add: corridor_def Let_def)

lemma spec_distance_cases:
  "spec_distance d c i = NaN \<or> spec_distance d c i = PosInf \<or> spec_distance d c i = NegInf
   \<or> is_double (spec_distance d c i)"
  unfolding spec_distance_def dot_def fadd_def by (rule fl_cases)

text \<open>
  The distance of a point that passes the test is a double, and the length of the
  corridor is not zero then.
\<close>

lemma included_double:
  assumes "spec_included d (corridor d s e) w i"
  shows "is_double (spec_distance d (corridor d s e) i) \<and> len (corridor d s e) \<noteq> Fin 0"
proof -
  let ?c = "corridor d s e"
  let ?D = "spec_distance d ?c i"
  from corridor_frame [of d s e] obtain dx dy where
    f: "ux ?c = fdiv dx (len ?c)" "uy ?c = fdiv dy (len ?c)"
    by blast
  from assms have inc: "Fin 0 \<le> ?D" "?D \<le> len ?c"
    by (simp_all add: spec_included_def)
  have D: "?D = fadd (fmul (fst (spec_local d ?c i)) (ux ?c)) (fmul (snd (spec_local d ?c i)) (uy ?c))"
    by (simp add: spec_distance_def dot_def)
  have inf: "?D = Fin 0 \<or> ?D = NaN" if "len ?c = PosInf"
    unfolding D using that f fdiv_PosInf
    by (intro fadd_zero_or_NaN fmul_zero_or_NaN) simp_all
  have zero: "?D = NaN \<or> ?D = PosInf \<or> ?D = NegInf" if "len ?c = Fin 0"
    unfolding D using that f fdiv_zero
    by (intro fadd_special fmul_special) simp_all
  have nn: "?D \<noteq> NaN" "?D \<noteq> NegInf"
    using inc(1) by auto
  have np: "?D \<noteq> PosInf"
  proof
    assume p: "?D = PosInf"
    with inc(2) have "len ?c = PosInf" by (cases "len ?c") simp_all
    with inf p show False by simp
  qed
  from spec_distance_cases [of d ?c i] nn np have dbl: "is_double ?D"
    by blast
  then have "len ?c \<noteq> Fin 0"
    using zero by (auto elim: is_doubleE)
  with dbl show ?thesis by simp
qed

lemma spec_frame_eq: "spec_frame d start endp = corridor d start endp"
  by (cases "coordinateOrigin d") (simp add: spec_frame_def corridor_def dot_def Let_def)

lemma spec_profile_corridor:
  "spec_profile d start endp w =
     map (spec_point d (corridor d start endp))
       (filter (spec_included d (corridor d start endp) w) [0..<pointCount d])"
  by (simp add: spec_profile_def spec_frame_eq Let_def)

text \<open>
  The result of \<^verbatim>\<open>getProfile\<close> is the sorted list of the points that the corridor
  test of the specification includes, in the order of their indices before the sort.
\<close>

lemma getProfile_run:
  "getProfile d start endp width =
     Array_sort (\<lambda>a b. fsub (distance a) (distance b))
       (spec_profile d start endp (width_or_default width))"
proof (cases "len (corridor d start endp) = Fin 0")
  case True
  then have "\<not> spec_included d (corridor d start endp) (width_or_default width) i" for i
    using included_double [of d start endp "width_or_default width" i] by blast
  then have "spec_profile d start endp (width_or_default width) = []"
    by (simp add: spec_profile_corridor)
  moreover have "getProfile d start endp width = []"
    using True by (simp add: getProfile_def Let_def)
  ultimately show ?thesis by (simp add: Array_sort_def)
next
  case False
  then show ?thesis
    by (simp add: getProfile_def Let_def fold_profile_step spec_profile_corridor
        spec_included_def [abs_def] width_or_default_def)
qed


lemma sqrt_cloud5: "sqrt 49568569600 = 222640"
  by (rule real_sqrt_unique) simp_all

lemmas rounded_ops = fadd_def fsub_def fmul_def fdiv_def fsqrt_def fcos_def

text \<open>
  On the example cloud, a corridor of two degrees along the equator from the origin, 2 m
  wide, holds the second point (at 55660 m) and the first (at 111320 m), in this order.
\<close>

lemma corridor_cloud5:
  "corridor cloud5 (Fin 0, Fin 0) (Fin 2, Fin 0) =
     \<lparr>metersPerDegLng = Fin 111320, metersPerDegLat = Fin 111320, x1 = Fin 0, y1 = Fin 0,
      ux = Fin 1, uy = Fin 0, len = Fin 222640\<rparr>"
  by (simp add: corridor_def cloud5_def Math_PI_def number_simps sqrt_cloud5 rounded_ops)

lemma getProfile_cloud5:
  "getProfile cloud5 (Fin 0, Fin 0) (Fin 2, Fin 0) None =
     [cloud5_point 55660 7, cloud5_point 111320 5]"
  unfolding getProfile_def corridor_cloud5
  by (simp add: cloud5_def number_simps rounded_ops cloud5_point_def
      profile_step_def point_dist_def point_offset_def rd_def upt_rec numeral_3_eq_3
      Array_sort_def profile_point_def)

text \<open>
  On the cloud of one point, with the corridor from the origin to the point itself, the
  roundings matter. The operands and results of the operations of \<^verbatim>\<open>getProfile\<close> are
  the following; the rounded distance of the point exceeds the rounded length of the
  corridor by one unit in the last place, so the point, which is the end of the
  corridor, is left out.
\<close>

lemma round_end_lng [simp]:
  "round_binary 53 (- 1022) 1023 (1 / 8192) = Fin (1 / 8192)"
proof -
  have "round_binary 53 (- 1022) 1023 (1 / 8192) =
      Fin (real_of_int 4503599627370496 * 2 powr real_of_int ((- 13) - int 53 + 1))"
    by (rule round_binary_nearest) (simp_all add: powr_neg_numeral)
  then show ?thesis by (simp add: powr_neg_numeral)
qed

lemma round_x2 [simp]:
  "round_binary 53 (- 1022) 1023 (13915 / 1024) = Fin (13915 / 1024)"
proof -
  have "round_binary 53 (- 1022) 1023 (13915 / 1024) =
      Fin (real_of_int 7649852150251520 * 2 powr real_of_int (3 - int 53 + 1))"
    by (rule round_binary_nearest) (simp_all add: powr_neg_numeral)
  then show ?thesis by (simp add: powr_neg_numeral)
qed

lemma round_end_lat [simp]:
  "round_binary 53 (- 1022) 1023 (3 / 16384) = Fin (3 / 16384)"
proof -
  have "round_binary 53 (- 1022) 1023 (3 / 16384) =
      Fin (real_of_int 6755399441055744 * 2 powr real_of_int ((- 13) - int 53 + 1))"
    by (rule round_binary_nearest) (simp_all add: powr_neg_numeral)
  then show ?thesis by (simp add: powr_neg_numeral)
qed

lemma round_y2 [simp]:
  "round_binary 53 (- 1022) 1023 (41745 / 2048) = Fin (41745 / 2048)"
proof -
  have "round_binary 53 (- 1022) 1023 (41745 / 2048) =
      Fin (real_of_int 5737389112688640 * 2 powr real_of_int (4 - int 53 + 1))"
    by (rule round_binary_nearest) (simp_all add: powr_neg_numeral)
  then show ?thesis by (simp add: powr_neg_numeral)
qed

lemma round_dx_dx [simp]:
  "round_binary 53 (- 1022) 1023 (193627225 / 1048576) = Fin (193627225 / 1048576)"
proof -
  have "round_binary 53 (- 1022) 1023 (193627225 / 1048576) =
      Fin (real_of_int 6497051554611200 * 2 powr real_of_int (7 - int 53 + 1))"
    by (rule round_binary_nearest) (simp_all add: powr_neg_numeral)
  then show ?thesis by (simp add: powr_neg_numeral)
qed

lemma round_dy_dy [simp]:
  "round_binary 53 (- 1022) 1023 (1742645025 / 4194304) = Fin (1742645025 / 4194304)"
proof -
  have "round_binary 53 (- 1022) 1023 (1742645025 / 4194304) =
      Fin (real_of_int 7309182998937600 * 2 powr real_of_int (8 - int 53 + 1))"
    by (rule round_binary_nearest) (simp_all add: powr_neg_numeral)
  then show ?thesis by (simp add: powr_neg_numeral)
qed

lemma round_lenSq [simp]:
  "round_binary 53 (- 1022) 1023 (2517153925 / 4194304) = Fin (2517153925 / 4194304)"
proof -
  have "round_binary 53 (- 1022) 1023 (2517153925 / 4194304) =
      Fin (real_of_int 5278854388121600 * 2 powr real_of_int (9 - int 53 + 1))"
    by (rule round_binary_nearest) (simp_all add: powr_neg_numeral)
  then show ?thesis by (simp add: powr_neg_numeral)
qed

lemma round_ux [simp]:
  "round_binary 53 (- 1022) 1023 (3824926075125760 / 6895483544362577) = Fin (2498147597022283 / 4503599627370496)"
proof -
  have "round_binary 53 (- 1022) 1023 (3824926075125760 / 6895483544362577) =
      Fin (real_of_int 4996295194044566 * 2 powr real_of_int ((- 1) - int 53 + 1))"
    by (rule round_binary_nearest) (simp_all add: powr_neg_numeral)
  then show ?thesis by (simp add: powr_neg_numeral)
qed

lemma round_uy [simp]:
  "round_binary 53 (- 1022) 1023 (5737389112688640 / 6895483544362577) = Fin (7494442791066849 / 9007199254740992)"
proof -
  have "round_binary 53 (- 1022) 1023 (5737389112688640 / 6895483544362577) =
      Fin (real_of_int 7494442791066849 * 2 powr real_of_int ((- 1) - int 53 + 1))"
    by (rule round_binary_nearest) (simp_all add: powr_neg_numeral)
  then show ?thesis by (simp add: powr_neg_numeral)
qed

lemma round_vx_ux [simp]:
  "round_binary 53 (- 1022) 1023 (34761723812565067945 / 4611686018427387904) = Fin (8486748977677019 / 1125899906842624)"
proof -
  have "round_binary 53 (- 1022) 1023 (34761723812565067945 / 4611686018427387904) =
      Fin (real_of_int 8486748977677019 * 2 powr real_of_int (2 - int 53 + 1))"
    by (rule round_binary_nearest) (simp_all add: powr_neg_numeral)
  then show ?thesis by (simp add: powr_neg_numeral)
qed

lemma round_vy_uy [simp]:
  "round_binary 53 (- 1022) 1023 (312855514313085611505 / 18446744073709551616) = Fin (4773796299943323 / 281474976710656)"
proof -
  have "round_binary 53 (- 1022) 1023 (312855514313085611505 / 18446744073709551616) =
      Fin (real_of_int 4773796299943323 * 2 powr real_of_int (4 - int 53 + 1))"
    by (rule round_binary_nearest) (simp_all add: powr_neg_numeral)
  then show ?thesis by (simp add: powr_neg_numeral)
qed

lemma round_dist [simp]:
  "round_binary 53 (- 1022) 1023 (27581934177450311 / 1125899906842624) = Fin (3447741772181289 / 140737488355328)"
proof -
  have "round_binary 53 (- 1022) 1023 (27581934177450311 / 1125899906842624) =
      Fin (real_of_int 6895483544362578 * 2 powr real_of_int (4 - int 53 + 1))"
    by (rule round_binary_nearest) (simp_all add: powr_neg_numeral)
  then show ?thesis by (simp add: powr_neg_numeral)
qed

lemma round_vx_nx [simp]:
  "round_binary 53 (- 1022) 1023 (- (104285171437695203835 / 9223372036854775808)) = Fin (- (1591265433314441 / 140737488355328))"
proof -
  have "round_binary 53 (- 1022) 1023 (- (104285171437695203835 / 9223372036854775808)) =
      Fin (real_of_int (- 6365061733257764) * 2 powr real_of_int (3 - int 53 + 1))"
    by (rule round_binary_nearest) (simp_all add: powr_neg_numeral)
  then show ?thesis by (simp add: powr_neg_numeral)
qed

lemma round_vy_ny [simp]:
  "round_binary 53 (- 1022) 1023 (104285171437695203835 / 9223372036854775808) = Fin (1591265433314441 / 140737488355328)"
proof -
  have "round_binary 53 (- 1022) 1023 (104285171437695203835 / 9223372036854775808) =
      Fin (real_of_int 6365061733257764 * 2 powr real_of_int (3 - int 53 + 1))"
    by (rule round_binary_nearest) (simp_all add: powr_neg_numeral)
  then show ?thesis by (simp add: powr_neg_numeral)
qed

lemma sqrt_bounds:
  "13790967088725153 / 562949953421312 < sqrt (2517153925 / 4194304)" "sqrt (2517153925 / 4194304) < 13790967088725155 / 562949953421312"
  by (rule real_less_rsqrt, simp add: power2_eq_square) (rule real_less_lsqrt, simp_all add: power2_eq_square)

lemma round_len [simp]:
  "round_binary 53 (- 1022) 1023 (sqrt (2517153925 / 4194304)) = Fin (6895483544362577 / 281474976710656)"
proof -
  have "round_binary 53 (- 1022) 1023 (sqrt (2517153925 / 4194304)) =
      Fin (real_of_int 6895483544362577 * 2 powr real_of_int (4 - int 53 + 1))"
    using sqrt_bounds by (intro round_binary_nearest) (simp_all add: abs_if powr_neg_numeral)
  then show ?thesis by (simp add: powr_neg_numeral)
qed






lemma fsub_self: "fsub a a = Fin 0 \<or> fsub a a = NaN"
  by (cases a) (simp_all add: fsub_def minus_number_def)

lemma fsqrt_zero_or_NaN:
  "a = Fin 0 \<or> a = NaN \<Longrightarrow> fsqrt a = Fin 0 \<or> fsqrt a = NaN"
  by (auto simp add: fsqrt_def)

lemma corridor_degenerate:
  "len (corridor d s s) = Fin 0 \<or> len (corridor d s s) = NaN"
  by (cases "coordinateOrigin d")
     (simp add: corridor_def Let_def,
      intro fsqrt_zero_or_NaN fadd_zero_or_NaN fmul_zero_or_NaN fsub_self)

text \<open>
  C8. For a corridor whose start and end are the same, \<^verbatim>\<open>getProfile\<close> returns the
  empty sequence; the function has no error result.
\<close>

theorem getProfile_degenerate: "getProfile d s s width = []"
proof (cases "len (corridor d s s) = Fin 0")
  case True
  then show ?thesis by (simp add: getProfile_def Let_def)
next
  case False
  with corridor_degenerate [of d s] have nan: "len (corridor d s s) = NaN"
    by blast
  have "\<not> spec_included d (corridor d s s) w i" for w i
    using nan by (simp add: spec_included_def)
  then show ?thesis
    using nan by (simp add: getProfile_def Let_def fold_profile_step Array_sort_def)
qed

theorem getProfile_degenerate_witness:
  "getProfile cloud3 (Fin (5 / 111320), Fin 0) (Fin (5 / 111320), Fin 0) None = []"
  using getProfile_degenerate [of cloud3 "(Fin (5 / 111320), Fin 0)" None] .

text \<open>
  C10. Every profile point that \<^verbatim>\<open>getProfile\<close> returns has the color
  \<open>[255, 255, 255]\<close> when the cloud has no color buffer, the intensity 0 when it has no
  intensity buffer, and the classification 0 when it has no classification buffer.
\<close>

theorem getProfile_defaults:
  assumes "p \<in> set (getProfile d start endp width)"
  shows "(colors d = None \<longrightarrow> color p = (Some (Fin 255), Some (Fin 255), Some (Fin 255)))
       \<and> (intensities d = None \<longrightarrow> intensity p = Some (Fin 0))
       \<and> (classifications d = None \<longrightarrow> classification p = Some (Fin 0))"
proof -
  from assms have "p \<in> set (spec_profile d start endp (width_or_default width))"
    by (simp add: getProfile_run set_Array_sort)
  then obtain i where "p = profile_point d i (point_dist d (corridor d start endp) i)"
    by (auto simp add: spec_profile_corridor spec_point_eq)
  then show ?thesis
    by (simp add: profile_point_def)
qed

theorem getProfile_defaults_witness:
  "cloud5_point 111320 5 \<in> set (getProfile cloud5 (Fin 0, Fin 0) (Fin 2, Fin 0) None)
   \<and> colors cloud5 = None \<and> intensities cloud5 = None \<and> classifications cloud5 = None
   \<and> color (cloud5_point 111320 5) = (Some (Fin 255), Some (Fin 255), Some (Fin 255))
   \<and> intensity (cloud5_point 111320 5) = Some (Fin 0)
   \<and> classification (cloud5_point 111320 5) = Some (Fin 0)"
proof -
  have m: "cloud5_point 111320 5 \<in> set (getProfile cloud5 (Fin 0, Fin 0) (Fin 2, Fin 0) None)"
    unfolding getProfile_cloud5 by simp
  have a: "colors cloud5 = None" "intensities cloud5 = None" "classifications cloud5 = None"
    by (simp_all add: cloud5_def)
  from getProfile_defaults [OF m] a m show ?thesis
    by simp
qed

section \<open>Properties of load-pointcloud.ts\<close>

lemma checkHeader_las_bytes: "checkHeader las_bytes = Inr las_bytes"
  by code_simp

lemma sample_one: "sample_step 1 = 1" "sample_count 1 = 1"
  by (simp_all add: sample_step_def sample_count_def MAX_POINTS_def)

lemma sample_two: "sample_step 2 = 1" "sample_count 2 = 2"
  by (simp_all add: sample_step_def sample_count_def MAX_POINTS_def)

lemma sample_zero: "sample_step 0 = 1" "sample_count 0 = 0"
  by (simp_all add: sample_step_def sample_count_def MAX_POINTS_def)

lemma upt_0_2: "[0..<2] = [0, 1]"
  by (simp add: upt_rec numeral_2_eq_2)

lemma replicate_numeral: "replicate (numeral k) x = x # replicate (pred_numeral k) x"
  by (simp add: numeral_eq_Suc)

lemmas builder_simps =
  buildPointCloud_def initial_reprojection_def finish_cloud_def rounded_ops
  reproject_step_def scale_projection_def rd_def rd8_def track_bounds_def
  offset_step_def color_step_def number_simps replicate_numeral

lemma build_mesh0: "buildPointCloud scale_projection mesh0 = Inr empty_cloud"
  by (simp add: mesh0_def empty_cloud_def sample_zero builder_simps)

lemma build_mesh2: "buildPointCloud scale_projection mesh2 = Inr cloud2"
  by (simp add: mesh2_def cloud2_def sample_two upt_0_2 builder_simps)

lemma build_mesh_nan: "buildPointCloud scale_projection mesh_nan = Inr cloud_nan"
  by (simp add: mesh_nan_def cloud_nan_def sample_one builder_simps)

lemma build_mesh_inf: "buildPointCloud scale_projection mesh_inf = Inr cloud_inf"
  by (simp add: mesh_inf_def cloud_inf_def sample_one builder_simps)





lemma for_loop_append:
  "for_loop (xs @ ys) body s =
     (case for_loop xs body s of Inl e \<Rightarrow> Inl e | Inr s' \<Rightarrow> for_loop ys body s')"
  by (induction xs arbitrary: s) (simp_all split: sum.splits)

lemma for_loop_upt_Suc:
  "for_loop [0..<Suc k] body s = Inr st \<longleftrightarrow>
     (\<exists>st'. for_loop [0..<k] body s = Inr st' \<and> body k st' = Inr st)"
  by (auto simp add: for_loop_append split: sum.splits)

lemma reproject_step_Inr:
  assumes "reproject_step forward raw rawI rawC step i st' = Inr st"
  obtains lng lat z where
    "reproject_point forward raw step i = Some (lng, lat, z)"
    "lngLat st = (lngLat st')[i * 3 := lng, i * 3 + 1 := lat, i * 3 + 2 := z]"
    "r_bounds st = track_bounds lng lat z (r_bounds st')"
    "r_intensities st =
       (case (r_intensities st', rawI) of
          (Some ins, Some r) \<Rightarrow> Some (ins[i := fround (fdiv (ToNumber (rd r (i * step))) (Fin 65535))])
        | _ \<Rightarrow> r_intensities st')"
    "r_classifications st =
       (case (r_classifications st', rawC) of
          (Some cls, Some r) \<Rightarrow> Some (cls[i := ToUint8 (ToNumber (rd8 r (i * step)))])
        | _ \<Rightarrow> r_classifications st')"
  using assms
  by (auto simp add: reproject_step_def reproject_point_def Let_def split: sum.splits prod.splits)

lemma run_min_Suc: "run_min f (Suc k) = (if f k < run_min f k then f k else run_min f k)"
  by (simp add: run_min_def)

lemma run_max_Suc: "run_max f (Suc k) = (if run_max f k < f k then f k else run_max f k)"
  by (simp add: run_max_def)

text \<open>The order of the numbers other than \<^verbatim>\<open>NaN\<close> is total.\<close>

lemma less_or_ge: "a \<noteq> NaN \<Longrightarrow> b \<noteq> NaN \<Longrightarrow> a < b \<or> b \<le> a"
  by (cases a; cases b) auto

lemma less_imp_le_number: "(a :: number) < b \<Longrightarrow> a \<le> b"
  by (cases a; cases b) auto

lemma le_trans_number: "(a :: number) \<le> b \<Longrightarrow> b \<le> c \<Longrightarrow> a \<le> c"
  by (cases a; cases b; cases c) auto

lemma le_refl_number: "a \<noteq> NaN \<Longrightarrow> (a :: number) \<le> a"
  by (cases a) auto

lemma not_less_PosInf: "a \<noteq> NaN \<Longrightarrow> \<not> a < PosInf \<Longrightarrow> a = PosInf"
  by (cases a) auto

lemma not_greater_NegInf: "a \<noteq> NaN \<Longrightarrow> \<not> NegInf < a \<Longrightarrow> a = NegInf"
  by (cases a) auto

text \<open>
  The running minimum and maximum of a sequence without \<^verbatim>\<open>NaN\<close> are attained and
  bound the sequence.
\<close>

lemma run_min_attained:
  assumes "\<forall>i<k. f i \<noteq> NaN" and "0 < k"
  shows "(\<exists>i<k. run_min f k = f i) \<and> (\<forall>i<k. run_min f k \<le> f i)"
  using assms
proof (induction k)
  case 0
  then show ?case by simp
next
  case (Suc k)
  from Suc.prems have a: "f k \<noteq> NaN" by simp
  show ?case
  proof (cases "k = 0")
    case True
    show ?thesis
    proof (cases "f 0 < PosInf")
      case True
      with \<open>k = 0\<close> a show ?thesis
        by (simp add: run_min_Suc run_min_def le_refl_number)
    next
      case False
      with a \<open>k = 0\<close> have "f 0 = PosInf" by (simp add: not_less_PosInf)
      with \<open>k = 0\<close> show ?thesis
        by (simp add: run_min_Suc run_min_def)
    qed
  next
    case False
    with Suc have IH: "\<exists>i<k. run_min f k = f i" "\<forall>i<k. run_min f k \<le> f i"
      by simp_all
    from IH(1) obtain j where j: "j < k" "run_min f k = f j"
      by blast
    with Suc.prems have m: "run_min f k \<noteq> NaN" by simp
    show ?thesis
    proof (cases "f k < run_min f k")
      case True
      then have r: "run_min f (Suc k) = f k"
        by (simp add: run_min_Suc)
      have "f k \<le> f i" if "i < k" for i
        using less_imp_le_number [OF True] IH(2) that by (blast intro: le_trans_number)
      moreover have "f k \<le> f k"
        using a by (rule le_refl_number)
      ultimately show ?thesis
        unfolding r by (auto simp add: less_Suc_eq)
    next
      case False
      then have r: "run_min f (Suc k) = run_min f k"
        by (simp add: run_min_Suc)
      from less_or_ge [OF a m] False have "run_min f k \<le> f k"
        by blast
      with IH j show ?thesis
        unfolding r by (auto simp add: less_Suc_eq)
    qed
  qed
qed

lemma run_max_attained:
  assumes "\<forall>i<k. f i \<noteq> NaN" and "0 < k"
  shows "(\<exists>i<k. run_max f k = f i) \<and> (\<forall>i<k. f i \<le> run_max f k)"
  using assms
proof (induction k)
  case 0
  then show ?case by simp
next
  case (Suc k)
  from Suc.prems have a: "f k \<noteq> NaN" by simp
  show ?case
  proof (cases "k = 0")
    case True
    show ?thesis
    proof (cases "NegInf < f 0")
      case True
      with \<open>k = 0\<close> a show ?thesis
        by (simp add: run_max_Suc run_max_def le_refl_number)
    next
      case False
      with a \<open>k = 0\<close> have "f 0 = NegInf" by (simp add: not_greater_NegInf)
      with \<open>k = 0\<close> show ?thesis
        by (simp add: run_max_Suc run_max_def)
    qed
  next
    case False
    with Suc have IH: "\<exists>i<k. run_max f k = f i" "\<forall>i<k. f i \<le> run_max f k"
      by simp_all
    from IH(1) obtain j where j: "j < k" "run_max f k = f j"
      by blast
    with Suc.prems have m: "run_max f k \<noteq> NaN" by simp
    show ?thesis
    proof (cases "run_max f k < f k")
      case True
      then have r: "run_max f (Suc k) = f k"
        by (simp add: run_max_Suc)
      have "f i \<le> f k" if "i < k" for i
        using less_imp_le_number [OF True] IH(2) that by (blast intro: le_trans_number)
      moreover have "f k \<le> f k"
        using a by (rule le_refl_number)
      ultimately show ?thesis
        unfolding r by (auto simp add: less_Suc_eq)
    next
      case False
      then have r: "run_max f (Suc k) = run_max f k"
        by (simp add: run_max_Suc)
      from less_or_ge [OF m a] False have "f k \<le> run_max f k"
        by blast
      with IH j show ?thesis
        unfolding r by (auto simp add: less_Suc_eq)
    qed
  qed
qed

lemma loop_inv_initial:
  "loop_inv forward raw rawI rawC step n 0 (initial_reprojection n rawI rawC)"
  by (simp add: loop_inv_def initial_reprojection_def run_min_def run_max_def
      split: option.splits)

lemma loop_inv_step:
  assumes inv: "loop_inv forward raw rawI rawC step n k st'"
    and k: "k < n"
    and step: "reproject_step forward raw rawI rawC step k st' = Inr st"
  shows "loop_inv forward raw rawI rawC step n (Suc k) st"
proof -
  from step obtain lng lat z where s:
    "reproject_point forward raw step k = Some (lng, lat, z)"
    "lngLat st = (lngLat st')[k * 3 := lng, k * 3 + 1 := lat, k * 3 + 2 := z]"
    "r_bounds st = track_bounds lng lat z (r_bounds st')"
    "r_intensities st =
       (case (r_intensities st', rawI) of
          (Some ins, Some r) \<Rightarrow> Some (ins[k := fround (fdiv (ToNumber (rd r (k * step))) (Fin 65535))])
        | _ \<Rightarrow> r_intensities st')"
    "r_classifications st =
       (case (r_classifications st', rawC) of
          (Some cls, Some r) \<Rightarrow> Some (cls[k := ToUint8 (ToNumber (rd8 r (k * step)))])
        | _ \<Rightarrow> r_classifications st')"
    by (rule reproject_step_Inr)
  have pt: "sample_pt forward raw step k = (lng, lat, z)"
    using s(1) by (simp add: sample_pt_def)
  have len: "length (lngLat st') = n * 3"
    using inv by (simp add: loop_inv_def)
  have 1: "length (lngLat st) = n * 3"
    using len s(2) by simp
  have 2: "\<exists>lng lat z.
             reproject_point forward raw step i = Some (lng, lat, z)
             \<and> lngLat st ! (i * 3) = lng \<and> lngLat st ! (i * 3 + 1) = lat
             \<and> lngLat st ! (i * 3 + 2) = z" if "i < Suc k" for i
  proof (cases "i = k")
    case True
    with s(1,2) len k show ?thesis by simp
  next
    case False
    with that have "i < k" by simp
    with inv obtain a b c where
      "reproject_point forward raw step i = Some (a, b, c)"
      "lngLat st' ! (i * 3) = a" "lngLat st' ! (i * 3 + 1) = b" "lngLat st' ! (i * 3 + 2) = c"
      unfolding loop_inv_def by blast
    moreover have "i * 3 + 2 < k * 3"
      using \<open>i < k\<close> by simp
    ultimately show ?thesis
      using s(2) by simp
  qed
  have 3: "minX (r_bounds st) = run_min (\<lambda>i. fst (sample_pt forward raw step i)) (Suc k)"
    "maxX (r_bounds st) = run_max (\<lambda>i. fst (sample_pt forward raw step i)) (Suc k)"
    "minY (r_bounds st) = run_min (\<lambda>i. fst (snd (sample_pt forward raw step i))) (Suc k)"
    "maxY (r_bounds st) = run_max (\<lambda>i. fst (snd (sample_pt forward raw step i))) (Suc k)"
    "minZ (r_bounds st) = run_min (\<lambda>i. snd (snd (sample_pt forward raw step i))) (Suc k)"
    "maxZ (r_bounds st) = run_max (\<lambda>i. snd (snd (sample_pt forward raw step i))) (Suc k)"
    using inv s(3) pt
    by (simp_all add: loop_inv_def track_bounds_def run_min_Suc run_max_Suc)
  have 4: "case rawI of
            None \<Rightarrow> r_intensities st = None
          | Some r \<Rightarrow>
              (\<exists>ins. r_intensities st = Some ins \<and> length ins = n
                 \<and> (\<forall>i<Suc k. ins ! i = fround (fdiv (ToNumber (rd r (i * step))) (Fin 65535))))"
  proof (cases rawI)
    case None
    with inv s(4) show ?thesis by (simp add: loop_inv_def)
  next
    case (Some r)
    with inv obtain ins where ins: "r_intensities st' = Some ins" "length ins = n"
      "\<forall>i<k. ins ! i = fround (fdiv (ToNumber (rd r (i * step))) (Fin 65535))"
      unfolding loop_inv_def by auto
    with Some s(4) k show ?thesis
      by (auto simp add: less_Suc_eq nth_list_update)
  qed
  have 5: "case rawC of
            None \<Rightarrow> r_classifications st = None
          | Some r \<Rightarrow>
              (\<exists>cls. r_classifications st = Some cls \<and> length cls = n
                 \<and> (\<forall>i<Suc k. cls ! i = ToUint8 (ToNumber (rd8 r (i * step)))))"
  proof (cases rawC)
    case None
    with inv s(5) show ?thesis by (simp add: loop_inv_def)
  next
    case (Some r)
    with inv obtain cls where cls: "r_classifications st' = Some cls" "length cls = n"
      "\<forall>i<k. cls ! i = ToUint8 (ToNumber (rd8 r (i * step)))"
      unfolding loop_inv_def by auto
    with Some s(5) k show ?thesis
      by (auto simp add: less_Suc_eq nth_list_update)
  qed
  from 1 2 3 4 5 show ?thesis
    unfolding loop_inv_def by blast
qed

lemma reprojection_loop:
  "k \<le> n \<Longrightarrow>
   for_loop [0..<k] (reproject_step forward raw rawI rawC step)
     (initial_reprojection n rawI rawC) = Inr st \<Longrightarrow>
   loop_inv forward raw rawI rawC step n k st"
proof (induction k arbitrary: st)
  case 0
  then show ?case using loop_inv_initial by auto
next
  case (Suc k)
  from Suc.prems(2) obtain st' where
    "for_loop [0..<k] (reproject_step forward raw rawI rawC step)
       (initial_reprojection n rawI rawC) = Inr st'"
    "reproject_step forward raw rawI rawC step k st' = Inr st"
    unfolding for_loop_upt_Suc by blast
  with Suc show ?case
    by (intro loop_inv_step [where st' = st']) simp_all
qed

lemma length_offset_step [simp]: "length (offset_step ll oLng oLat i ps) = length ps"
  by (simp add: offset_step_def)

lemma fold_offset_step:
  "k \<le> n \<Longrightarrow> length ps0 = n * 3 \<Longrightarrow>
   length (fold (offset_step ll oLng oLat) [0..<k] ps0) = n * 3
   \<and> (\<forall>i<k. fold (offset_step ll oLng oLat) [0..<k] ps0 ! (i * 3) = fround (fsub (ToNumber (rd ll (i * 3))) oLng)
           \<and> fold (offset_step ll oLng oLat) [0..<k] ps0 ! (i * 3 + 1)
               = fround (fsub (ToNumber (rd ll (i * 3 + 1))) oLat)
           \<and> fold (offset_step ll oLng oLat) [0..<k] ps0 ! (i * 3 + 2)
               = fround (ToNumber (rd ll (i * 3 + 2))))"
proof (induction k)
  case 0
  then show ?case by simp
next
  case (Suc k)
  let ?r = "fold (offset_step ll oLng oLat) [0..<k] ps0"
  from Suc have IH: "length ?r = n * 3"
    "\<And>i. i < k \<Longrightarrow> ?r ! (i * 3) = fround (fsub (ToNumber (rd ll (i * 3))) oLng)
        \<and> ?r ! (i * 3 + 1) = fround (fsub (ToNumber (rd ll (i * 3 + 1))) oLat)
        \<and> ?r ! (i * 3 + 2) = fround (ToNumber (rd ll (i * 3 + 2)))"
    by simp_all
  have "fold (offset_step ll oLng oLat) [0..<Suc k] ps0 = offset_step ll oLng oLat k ?r"
    by simp
  moreover have "offset_step ll oLng oLat k ?r ! (i * 3) = fround (fsub (ToNumber (rd ll (i * 3))) oLng)
        \<and> offset_step ll oLng oLat k ?r ! (i * 3 + 1) = fround (fsub (ToNumber (rd ll (i * 3 + 1))) oLat)
        \<and> offset_step ll oLng oLat k ?r ! (i * 3 + 2) = fround (ToNumber (rd ll (i * 3 + 2)))"
    if "i < Suc k" for i
  proof (cases "i = k")
    case True
    with IH(1) Suc.prems show ?thesis by (simp add: offset_step_def)
  next
    case False
    with that have "i < k" by simp
    then have "i * 3 + 2 < k * 3" by simp
    with IH(2) [OF \<open>i < k\<close>] show ?thesis by (simp add: offset_step_def)
  qed
  ultimately show ?case
    using IH(1) by simp
qed

lemma length_color_step [simp]: "length (color_step raw chs step i cs) = length cs"
  by (simp add: color_step_def Let_def)

lemma color_step_alpha:
  "i * 4 + 3 < length cs \<Longrightarrow> color_step raw chs step i cs ! (i * 4 + 3) = 255"
  by (simp add: color_step_def Let_def)

lemma color_step_other:
  "j < i * 4 \<Longrightarrow> color_step raw chs step i cs ! j = cs ! j"
  by (simp add: color_step_def Let_def)

lemma fold_color_step:
  "k \<le> n \<Longrightarrow> length cs0 = n * 4 \<Longrightarrow>
   length (fold (color_step raw chs step) [0..<k] cs0) = n * 4
   \<and> (\<forall>i<k. fold (color_step raw chs step) [0..<k] cs0 ! (i * 4 + 3) = 255)"
proof (induction k)
  case 0
  then show ?case by simp
next
  case (Suc k)
  let ?r = "fold (color_step raw chs step) [0..<k] cs0"
  from Suc have IH: "length ?r = n * 4" "\<And>i. i < k \<Longrightarrow> ?r ! (i * 4 + 3) = 255"
    by simp_all
  have "color_step raw chs step k ?r ! (i * 4 + 3) = 255" if "i < Suc k" for i
  proof (cases "i = k")
    case True
    with IH(1) Suc.prems show ?thesis by (simp add: color_step_alpha)
  next
    case False
    with that have "i < k" by simp
    then have "i * 4 + 3 < k * 4" by simp
    with IH(2) [OF \<open>i < k\<close>] show ?thesis by (simp add: color_step_other)
  qed
  then show ?case
    using IH(1) by simp
qed

lemma buildPointCloud_Inr:
  assumes "buildPointCloud forward mesh = Inr d"
  obtains raw st where
    "attr_POSITION (attributes mesh) = Some raw"
    "0 \<le> sample_count (vertexCount (header mesh))"
    "for_loop [0..<nat (sample_count (vertexCount (header mesh)))]
       (reproject_step forward raw (attr_intensity (attributes mesh))
          (attr_classification (attributes mesh))
          (nat (sample_step (vertexCount (header mesh)))))
       (initial_reprojection (nat (sample_count (vertexCount (header mesh))))
          (attr_intensity (attributes mesh)) (attr_classification (attributes mesh)))
     = Inr st"
    "d = finish_cloud (nat (sample_count (vertexCount (header mesh))))
           (nat (sample_step (vertexCount (header mesh))))
           (attr_COLOR_0 (attributes mesh)) st"
  using assms
  by (auto simp add: buildPointCloud_def Let_def split: option.splits if_splits sum.splits)

lemma finish_cloud_simps [simp]:
  "pointCount (finish_cloud n step rc st) = n"
  "bounds (finish_cloud n step rc st) = r_bounds st"
  "intensities (finish_cloud n step rc st) = r_intensities st"
  "classifications (finish_cloud n step rc st) = r_classifications st"
  "coordinateOrigin (finish_cloud n step rc st) =
     (fdiv (fadd (minX (r_bounds st)) (maxX (r_bounds st))) (Fin 2),
      fdiv (fadd (minY (r_bounds st)) (maxY (r_bounds st))) (Fin 2), Fin 0)"
  "positions (finish_cloud n step rc st) =
     fold (offset_step (lngLat st)
             (fdiv (fadd (minX (r_bounds st)) (maxX (r_bounds st))) (Fin 2))
             (fdiv (fadd (minY (r_bounds st)) (maxY (r_bounds st))) (Fin 2))) [0..<n]
       (replicate (n * 3) (Fin 0))"
  "colors (finish_cloud n step rc st) =
     (case rc of
        None \<Rightarrow> None
      | Some (raw, channelSize) \<Rightarrow>
          Some (fold (color_step raw channelSize step) [0..<n] (replicate (n * 4) 0)))"
  by (simp_all add: finish_cloud_def Let_def)

lemma loadPointCloud_Inr:
  assumes "loadPointCloud decode forward buf = Inr d"
  obtains patched mesh where
    "checkHeader buf = Inr patched" "decode patched = Inr mesh"
    "buildPointCloud forward mesh = Inr d"
  using assms by (auto simp add: loadPointCloud_def split: sum.splits)

lemma loadPointCloud_build:
  "checkHeader buf = Inr patched \<Longrightarrow> decode patched = Inr mesh \<Longrightarrow>
   loadPointCloud decode forward buf = buildPointCloud forward mesh"
  by (simp add: loadPointCloud_def)

text \<open>
  C9. Whenever the decoded mesh has a color attribute, of any channel count, the cloud
  that \<^verbatim>\<open>loadPointCloud\<close> returns has a color buffer of \<open>4 * pointCount\<close> bytes whose
  alpha byte is 255 for every point.
\<close>

theorem loadPointCloud_alpha_opaque:
  assumes "checkHeader buf = Inr patched" and "decode patched = Inr mesh"
    and "attr_COLOR_0 (attributes mesh) = Some (raw, channelSize)"
    and "loadPointCloud decode forward buf = Inr d"
  shows "\<exists>cs. colors d = Some cs \<and> length cs = 4 * pointCount d
           \<and> (\<forall>i<pointCount d. cs ! (4 * i + 3) = 255)"
proof -
  have "buildPointCloud forward mesh = Inr d"
    using assms(1,2,4) by (simp add: loadPointCloud_build)
  then obtain st where
    d: "d = finish_cloud (nat (sample_count (vertexCount (header mesh))))
           (nat (sample_step (vertexCount (header mesh))))
           (attr_COLOR_0 (attributes mesh)) st"
    by (rule buildPointCloud_Inr)
  let ?n = "nat (sample_count (vertexCount (header mesh)))"
  let ?cs = "fold (color_step raw channelSize (nat (sample_step (vertexCount (header mesh)))))
               [0..<?n] (replicate (?n * 4) 0)"
  have "length ?cs = ?n * 4 \<and> (\<forall>i<?n. ?cs ! (i * 4 + 3) = 255)"
    by (rule fold_color_step) simp_all
  then show ?thesis
    using assms(3) by (simp add: d mult.commute)
qed

theorem loadPointCloud_alpha_opaque_witness:
  "checkHeader las_bytes = Inr las_bytes
   \<and> stub_decoder mesh2 las_bytes = Inr mesh2
   \<and> attr_COLOR_0 (attributes mesh2) = Some ([10, 20, 30, 40, 50, 60, 70, 80], 4)
   \<and> loadPointCloud (stub_decoder mesh2) scale_projection las_bytes = Inr cloud2
   \<and> (\<exists>cs. colors cloud2 = Some cs \<and> length cs = 4 * pointCount cloud2
          \<and> cs ! (4 * 0 + 3) = 255 \<and> cs ! (4 * 1 + 3) = 255)"
proof -
  have dec: "stub_decoder mesh2 las_bytes = Inr mesh2"
    by (simp add: stub_decoder_def)
  have c: "attr_COLOR_0 (attributes mesh2) = Some ([10, 20, 30, 40, 50, 60, 70, 80], 4)"
    by (simp add: mesh2_def)
  have l: "loadPointCloud (stub_decoder mesh2) scale_projection las_bytes = Inr cloud2"
    by (simp add: loadPointCloud_def checkHeader_las_bytes dec build_mesh2)
  have n: "0 < pointCount cloud2" "1 < pointCount cloud2"
    by (simp_all add: cloud2_def)
  from loadPointCloud_alpha_opaque
      [of las_bytes las_bytes "stub_decoder mesh2" mesh2 _ _ scale_projection cloud2,
        OF checkHeader_las_bytes dec c l]
    dec c l n checkHeader_las_bytes
  show ?thesis
    by blast
qed

lemma sample_step_max:
  "sample_step v = max 1 \<lceil>real_of_int v / real_of_int MAX_POINTS\<rceil>"
proof (cases "MAX_POINTS < v")
  case True
  then have "1 < real_of_int v / real_of_int MAX_POINTS"
    by (simp add: MAX_POINTS_def)
  then have "1 < \<lceil>real_of_int v / real_of_int MAX_POINTS\<rceil>"
    by (simp add: less_ceiling_iff)
  with True show ?thesis by (simp add: sample_step_def)
next
  case False
  then have "real_of_int v / real_of_int MAX_POINTS \<le> 1"
    by (simp add: MAX_POINTS_def)
  then have "\<lceil>real_of_int v / real_of_int MAX_POINTS\<rceil> \<le> 1"
    by (simp add: ceiling_le_iff)
  with False show ?thesis by (simp add: sample_step_def)
qed

lemma sample_step_pos: "1 \<le> sample_step v"
  by (simp add: sample_step_max)



lemma sample_count_pos: "1 \<le> v \<Longrightarrow> 1 \<le> sample_count v"
proof -
  assume "1 \<le> v"
  moreover have "0 < real_of_int (sample_step v)"
    using sample_step_pos [of v] by simp
  ultimately have "0 < real_of_int v / real_of_int (sample_step v)"
    by simp
  then show ?thesis
    unfolding sample_count_def by (simp add: less_ceiling_iff)
qed

lemma loop_result:
  assumes "buildPointCloud forward mesh = Inr d"
  obtains raw st where
    "attr_POSITION (attributes mesh) = Some raw"
    "0 \<le> sample_count (vertexCount (header mesh))"
    "loop_inv forward raw (attr_intensity (attributes mesh))
       (attr_classification (attributes mesh)) (nat (sample_step (vertexCount (header mesh))))
       (nat (sample_count (vertexCount (header mesh))))
       (nat (sample_count (vertexCount (header mesh)))) st"
    "d = finish_cloud (nat (sample_count (vertexCount (header mesh))))
           (nat (sample_step (vertexCount (header mesh))))
           (attr_COLOR_0 (attributes mesh)) st"
proof -
  from assms obtain raw st where r:
    "attr_POSITION (attributes mesh) = Some raw"
    "0 \<le> sample_count (vertexCount (header mesh))"
    "for_loop [0..<nat (sample_count (vertexCount (header mesh)))]
       (reproject_step forward raw (attr_intensity (attributes mesh))
          (attr_classification (attributes mesh))
          (nat (sample_step (vertexCount (header mesh)))))
       (initial_reprojection (nat (sample_count (vertexCount (header mesh))))
          (attr_intensity (attributes mesh)) (attr_classification (attributes mesh)))
     = Inr st"
    "d = finish_cloud (nat (sample_count (vertexCount (header mesh))))
           (nat (sample_step (vertexCount (header mesh))))
           (attr_COLOR_0 (attributes mesh)) st"
    by (rule buildPointCloud_Inr)
  from reprojection_loop [OF order_refl r(3)] r(1,2,4) that show thesis
    by blast
qed


text \<open>
  The builder returns a cloud when the mesh has the position attribute, the declared
  vertex count is not negative and the projection returns on every sampled point.
\<close>

lemma for_loop_total:
  "(\<And>i s. i \<in> set is \<Longrightarrow> \<exists>s'. body i s = Inr s') \<Longrightarrow> \<exists>s'. for_loop is body s = Inr s'"
proof (induction "is" arbitrary: s)
  case Nil
  then show ?case by simp
next
  case (Cons i "is")
  from Cons.prems [of i s] obtain s1 where s1: "body i s = Inr s1"
    by auto
  from Cons.IH [of s1] Cons.prems obtain s2 where "for_loop is body s1 = Inr s2"
    by auto
  with s1 show ?case by simp
qed

lemma reproject_step_total:
  assumes "reproject_point forward raw step i \<noteq> None"
  shows "\<exists>st'. reproject_step forward raw rawI rawC step i st = Inr st'"
  using assms
  by (auto simp add: reproject_step_def reproject_point_def Let_def split: sum.splits prod.splits)

lemma sample_count_nonneg: "0 \<le> v \<Longrightarrow> 0 \<le> sample_count v"
proof -
  assume "0 \<le> v"
  moreover have "0 < real_of_int (sample_step v)"
    using sample_step_pos [of v] by simp
  ultimately have "0 \<le> real_of_int v / real_of_int (sample_step v)"
    by simp
  then show ?thesis
    unfolding sample_count_def by (simp add: le_ceiling_iff)
qed

lemma buildPointCloud_total:
  assumes "attr_POSITION (attributes mesh) = Some raw"
    and "0 \<le> vertexCount (header mesh)"
    and "\<forall>i<nat (sample_count (vertexCount (header mesh))).
           reproject_point forward raw (nat (sample_step (vertexCount (header mesh)))) i \<noteq> None"
  shows "\<exists>d. buildPointCloud forward mesh = Inr d"
proof -
  let ?v = "vertexCount (header mesh)"
  let ?n = "nat (sample_count ?v)" and ?s = "nat (sample_step ?v)"
  have "\<exists>st. for_loop [0..<?n]
      (reproject_step forward raw (attr_intensity (attributes mesh))
         (attr_classification (attributes mesh)) ?s)
      (initial_reprojection ?n (attr_intensity (attributes mesh))
         (attr_classification (attributes mesh))) = Inr st"
    using assms(3) by (intro for_loop_total reproject_step_total) simp
  moreover have "\<not> sample_count ?v < 0"
    using sample_count_nonneg [OF assms(2)] by simp
  ultimately show ?thesis
    using assms(1) by (auto simp add: buildPointCloud_def Let_def)
qed



lemma lengths_finish_cloud:
  assumes "loop_inv forward raw rawI rawC step n n st"
  shows "spec_buffer_lengths (finish_cloud n step rc st)"
proof -
  have "length (fold (color_step rawColors chs step) [0..<n] (replicate (n * 4) 0)) = n * 4"
    for rawColors chs
    using fold_color_step [of n n "replicate (n * 4) 0" rawColors chs step] by simp
  moreover have "length (fold (offset_step ll a b) [0..<n] (replicate (n * 3) (Fin 0))) = n * 3"
    for ll a b
    using fold_offset_step [of n n "replicate (n * 3) (Fin 0)" ll a b] by simp
  ultimately show ?thesis
    using assms
    by (auto simp add: spec_buffer_lengths_def loop_inv_def mult.commute
        split: option.splits)
qed

lemma tight_bounds_loop:
  assumes inv: "loop_inv forward raw rawI rawC step n n st"
    and n: "0 < n"
    and fin: "\<forall>i<n. fst (sample_pt forward raw step i) \<noteq> NaN
                  \<and> fst (snd (sample_pt forward raw step i)) \<noteq> NaN
                  \<and> snd (snd (sample_pt forward raw step i)) \<noteq> NaN"
  shows "spec_tight_bounds (map (sample_pt forward raw step) [0..<n]) (r_bounds st)"
proof -
  let ?x = "\<lambda>i. fst (sample_pt forward raw step i)"
  let ?y = "\<lambda>i. fst (snd (sample_pt forward raw step i))"
  let ?z = "\<lambda>i. snd (snd (sample_pt forward raw step i))"
  from inv have b:
    "minX (r_bounds st) = run_min ?x n" "maxX (r_bounds st) = run_max ?x n"
    "minY (r_bounds st) = run_min ?y n" "maxY (r_bounds st) = run_max ?y n"
    "minZ (r_bounds st) = run_min ?z n" "maxZ (r_bounds st) = run_max ?z n"
    by (simp_all add: loop_inv_def)
  from fin have fx: "\<forall>i<n. ?x i \<noteq> NaN" and fy: "\<forall>i<n. ?y i \<noteq> NaN"
    and fz: "\<forall>i<n. ?z i \<noteq> NaN"
    by simp_all
  note mx = run_min_attained [OF fx n] run_max_attained [OF fx n]
  note my = run_min_attained [OF fy n] run_max_attained [OF fy n]
  note mz = run_min_attained [OF fz n] run_max_attained [OF fz n]
  have encl: "list_all (\<lambda>(x, y, z). minX (r_bounds st) \<le> x \<and> x \<le> maxX (r_bounds st)
                  \<and> minY (r_bounds st) \<le> y \<and> y \<le> maxY (r_bounds st)
                  \<and> minZ (r_bounds st) \<le> z \<and> z \<le> maxZ (r_bounds st))
          (map (sample_pt forward raw step) [0..<n])"
    using mx my mz unfolding b
    by (simp add: list_all_iff split_beta)
  have att: "list_ex (\<lambda>(x, y, z). x = minX (r_bounds st)) (map (sample_pt forward raw step) [0..<n])"
    "list_ex (\<lambda>(x, y, z). x = maxX (r_bounds st)) (map (sample_pt forward raw step) [0..<n])"
    "list_ex (\<lambda>(x, y, z). y = minY (r_bounds st)) (map (sample_pt forward raw step) [0..<n])"
    "list_ex (\<lambda>(x, y, z). y = maxY (r_bounds st)) (map (sample_pt forward raw step) [0..<n])"
    "list_ex (\<lambda>(x, y, z). z = minZ (r_bounds st)) (map (sample_pt forward raw step) [0..<n])"
    "list_ex (\<lambda>(x, y, z). z = maxZ (r_bounds st)) (map (sample_pt forward raw step) [0..<n])"
  proof -
    have ex: "list_ex (\<lambda>p. g p = m) (map (sample_pt forward raw step) [0..<n])"
      if "\<exists>i<n. m = g (sample_pt forward raw step i)" for g :: "number \<times> number \<times> number \<Rightarrow> number" and m
      using that by (auto simp add: list_ex_iff)
    show "list_ex (\<lambda>(x, y, z). x = minX (r_bounds st)) (map (sample_pt forward raw step) [0..<n])"
      using ex [of "run_min ?x n" fst] mx(1) unfolding b by (simp add: case_prod_unfold)
    show "list_ex (\<lambda>(x, y, z). x = maxX (r_bounds st)) (map (sample_pt forward raw step) [0..<n])"
      using ex [of "run_max ?x n" fst] mx(2) unfolding b by (simp add: case_prod_unfold)
    show "list_ex (\<lambda>(x, y, z). y = minY (r_bounds st)) (map (sample_pt forward raw step) [0..<n])"
      using ex [of "run_min ?y n" "\<lambda>p. fst (snd p)"] my(1) unfolding b by (simp add: case_prod_unfold)
    show "list_ex (\<lambda>(x, y, z). y = maxY (r_bounds st)) (map (sample_pt forward raw step) [0..<n])"
      using ex [of "run_max ?y n" "\<lambda>p. fst (snd p)"] my(2) unfolding b by (simp add: case_prod_unfold)
    show "list_ex (\<lambda>(x, y, z). z = minZ (r_bounds st)) (map (sample_pt forward raw step) [0..<n])"
      using ex [of "run_min ?z n" "\<lambda>p. snd (snd p)"] mz(1) unfolding b by (simp add: case_prod_unfold)
    show "list_ex (\<lambda>(x, y, z). z = maxZ (r_bounds st)) (map (sample_pt forward raw step) [0..<n])"
      using ex [of "run_max ?z n" "\<lambda>p. snd (snd p)"] mz(2) unfolding b by (simp add: case_prod_unfold)
  qed
  from encl att show ?thesis
    unfolding spec_tight_bounds_def by blast
qed

text \<open>Bounds that enclose a point have no \<^verbatim>\<open>NaN\<close> coordinate inside.\<close>

lemma tight_bounds_not_NaN:
  assumes "spec_tight_bounds pts b"
  shows "list_all (\<lambda>(x, y, z). x \<noteq> NaN \<and> y \<noteq> NaN \<and> z \<noteq> NaN) pts"
proof -
  have "x \<noteq> NaN" if "l \<le> x" for l x :: number
    using that by auto
  with assms show ?thesis
    unfolding spec_tight_bounds_def list_all_iff by fast
qed

text \<open>
  C4, as amended. Every cloud that the builder returns has buffers of the lengths of the
  data model and its origin is the midpoint of its bounds in X and Y, with Z = 0. If the
  declared vertex count is at least 1, the bounds enclose the reprojected points tightly
  exactly when no coordinate of a reprojected point is \<^verbatim>\<open>NaN\<close>. If the declared vertex
  count is 0, the cloud has no point and its bounds are \<^verbatim>\<open>Infinity\<close> and \<^verbatim>\<open>-Infinity\<close>
  on every axis, which is not tight; and the builder does return a cloud for such a mesh
  when it has the position attribute.
\<close>

theorem builder_invariant:
  "(buildPointCloud forward mesh = Inr d \<longrightarrow>
      spec_buffer_lengths d \<and> spec_origin_midpoint d
      \<and> (1 \<le> vertexCount (header mesh) \<longrightarrow>
           spec_tight_bounds (reprojected forward mesh) (bounds d)
           = list_all (\<lambda>(x, y, z). x \<noteq> NaN \<and> y \<noteq> NaN \<and> z \<noteq> NaN)
               (reprojected forward mesh))
      \<and> (vertexCount (header mesh) = 0 \<longrightarrow>
           pointCount d = 0 \<and> reprojected forward mesh = []
           \<and> bounds d = \<lparr>minX = PosInf, maxX = NegInf, minY = PosInf, maxY = NegInf,
                          minZ = PosInf, maxZ = NegInf\<rparr>
           \<and> \<not> spec_tight_bounds (reprojected forward mesh) (bounds d)))
   \<and> (attr_POSITION (attributes mesh) \<noteq> None \<and> vertexCount (header mesh) = 0 \<longrightarrow>
        (\<exists>c. buildPointCloud forward mesh = Inr c))"
proof (intro conjI impI)
  assume "attr_POSITION (attributes mesh) \<noteq> None \<and> vertexCount (header mesh) = 0"
  then obtain raw where raw: "attr_POSITION (attributes mesh) = Some raw"
    and z: "vertexCount (header mesh) = 0"
    by auto
  have "0 \<le> vertexCount (header mesh)"
    using z by simp
  moreover have "\<forall>i<nat (sample_count (vertexCount (header mesh))).
       reproject_point forward raw (nat (sample_step (vertexCount (header mesh)))) i \<noteq> None"
    using z by (simp add: sample_zero)
  ultimately show "\<exists>c. buildPointCloud forward mesh = Inr c"
    by (rule buildPointCloud_total [OF raw])
next
  assume build: "buildPointCloud forward mesh = Inr d"
  let ?v = "vertexCount (header mesh)"
  let ?n = "nat (sample_count ?v)" and ?s = "nat (sample_step ?v)"
  from build obtain raw st where r:
    "attr_POSITION (attributes mesh) = Some raw"
    "0 \<le> sample_count ?v"
    "loop_inv forward raw (attr_intensity (attributes mesh))
       (attr_classification (attributes mesh)) ?s ?n ?n st"
    "d = finish_cloud ?n ?s (attr_COLOR_0 (attributes mesh)) st"
    by (rule loop_result)
  have pts: "reprojected forward mesh = map (sample_pt forward raw ?s) [0..<?n]"
    using r(1) by (simp add: reprojected_def)
  show "spec_buffer_lengths d"
    unfolding r(4) using r(3) by (rule lengths_finish_cloud)
  show "spec_origin_midpoint d"
    by (simp add: r(4) spec_origin_midpoint_def)
  {
    assume v: "1 \<le> ?v"
    have tight: "spec_tight_bounds (reprojected forward mesh) (bounds d)"
      if fin: "list_all (\<lambda>(x, y, z). x \<noteq> NaN \<and> y \<noteq> NaN \<and> z \<noteq> NaN) (reprojected forward mesh)"
    proof -
      have n: "0 < ?n"
        using sample_count_pos [OF v] by simp
      have "\<forall>i<?n. fst (sample_pt forward raw ?s i) \<noteq> NaN
                  \<and> fst (snd (sample_pt forward raw ?s i)) \<noteq> NaN
                  \<and> snd (snd (sample_pt forward raw ?s i)) \<noteq> NaN"
        using fin unfolding pts by (simp add: list_all_iff split_beta)
      with r(3) n have "spec_tight_bounds (map (sample_pt forward raw ?s) [0..<?n]) (r_bounds st)"
        by (rule tight_bounds_loop)
      then show ?thesis
        by (simp add: pts r(4))
    qed
    with tight_bounds_not_NaN [of "reprojected forward mesh" "bounds d"]
    show "spec_tight_bounds (reprojected forward mesh) (bounds d)
           = list_all (\<lambda>(x, y, z). x \<noteq> NaN \<and> y \<noteq> NaN \<and> z \<noteq> NaN)
               (reprojected forward mesh)"
      by blast
  }
  {
    assume z: "?v = 0"
    then have n0: "?n = 0"
      by (simp add: sample_zero)
    show "pointCount d = 0"
      using n0 by (simp add: r(4))
    show e: "reprojected forward mesh = []"
      using n0 by (simp add: pts)
    show "bounds d = \<lparr>minX = PosInf, maxX = NegInf, minY = PosInf, maxY = NegInf,
                          minZ = PosInf, maxZ = NegInf\<rparr>"
      using r(3) n0 by (simp add: r(4) loop_inv_def run_min_def run_max_def)
    show "\<not> spec_tight_bounds (reprojected forward mesh) (bounds d)"
      by (simp add: e spec_tight_bounds_def)
  }
qed

text \<open>
  C4, as stated, fails on the empty mesh: the builder returns a cloud without points
  whose bounds are \<^verbatim>\<open>Infinity\<close> and \<^verbatim>\<open>-Infinity\<close>, which no point attains. It also fails
  on a mesh of one point whose elevation is \<^verbatim>\<open>NaN\<close>: every comparison with it is false,
  the bounds of the elevation stay \<^verbatim>\<open>Infinity\<close> and \<^verbatim>\<open>-Infinity\<close>, and the point lies
  outside.
\<close>

theorem builder_invariant_counterexample:
  "buildPointCloud scale_projection mesh0 = Inr empty_cloud
   \<and> \<not> spec_tight_bounds (reprojected scale_projection mesh0) (bounds empty_cloud)
   \<and> buildPointCloud scale_projection mesh_nan = Inr cloud_nan
   \<and> reprojected scale_projection mesh_nan = [(Fin 1, Fin 2, NaN)]
   \<and> \<not> spec_tight_bounds (reprojected scale_projection mesh_nan) (bounds cloud_nan)"
proof (intro conjI)
  show "buildPointCloud scale_projection mesh0 = Inr empty_cloud"
    by (rule build_mesh0)
  have "reprojected scale_projection mesh0 = []"
    by (simp add: reprojected_def mesh0_def sample_zero)
  then show "\<not> spec_tight_bounds (reprojected scale_projection mesh0) (bounds empty_cloud)"
    by (simp add: spec_tight_bounds_def)
  show "buildPointCloud scale_projection mesh_nan = Inr cloud_nan"
    by (rule build_mesh_nan)
  show p: "reprojected scale_projection mesh_nan = [(Fin 1, Fin 2, NaN)]"
    by (simp add: reprojected_def mesh_nan_def sample_one sample_pt_def reproject_point_def
        scale_projection_def rd_def)
  show "\<not> spec_tight_bounds (reprojected scale_projection mesh_nan) (bounds cloud_nan)"
    unfolding p by (simp add: spec_tight_bounds_def)
qed

theorem builder_invariant_witness:
  "buildPointCloud scale_projection mesh2 = Inr cloud2
   \<and> 1 \<le> vertexCount (header mesh2)
   \<and> reprojected scale_projection mesh2 = [(Fin 1, Fin 2, Fin 5), (Fin 3, Fin 4, Fin 9)]
   \<and> spec_buffer_lengths cloud2 \<and> spec_origin_midpoint cloud2
   \<and> spec_tight_bounds (reprojected scale_projection mesh2) (bounds cloud2)
   \<and> buildPointCloud scale_projection mesh_inf = Inr cloud_inf
   \<and> 1 \<le> vertexCount (header mesh_inf)
   \<and> reprojected scale_projection mesh_inf = [(Fin 1, Fin 2, PosInf)]
   \<and> spec_tight_bounds (reprojected scale_projection mesh_inf) (bounds cloud_inf)
   \<and> attr_POSITION (attributes mesh0) \<noteq> None \<and> vertexCount (header mesh0) = 0
   \<and> buildPointCloud scale_projection mesh0 = Inr empty_cloud
   \<and> pointCount empty_cloud = 0
   \<and> bounds empty_cloud = \<lparr>minX = PosInf, maxX = NegInf, minY = PosInf, maxY = NegInf,
                              minZ = PosInf, maxZ = NegInf\<rparr>"
proof -
  have v: "1 \<le> vertexCount (header mesh2)" "1 \<le> vertexCount (header mesh_inf)"
    "attr_POSITION (attributes mesh0) \<noteq> None" "vertexCount (header mesh0) = 0"
    by (simp_all add: mesh2_def mesh_inf_def mesh0_def)
  have p2: "reprojected scale_projection mesh2 = [(Fin 1, Fin 2, Fin 5), (Fin 3, Fin 4, Fin 9)]"
    by (simp add: reprojected_def mesh2_def sample_two upt_0_2 sample_pt_def
        reproject_point_def scale_projection_def rd_def)
  have pi: "reprojected scale_projection mesh_inf = [(Fin 1, Fin 2, PosInf)]"
    by (simp add: reprojected_def mesh_inf_def sample_one sample_pt_def reproject_point_def
        scale_projection_def rd_def)
  have n2: "list_all (\<lambda>(x, y, z). x \<noteq> NaN \<and> y \<noteq> NaN \<and> z \<noteq> NaN)
      (reprojected scale_projection mesh2)"
    unfolding p2 by simp
  have ni: "list_all (\<lambda>(x, y, z). x \<noteq> NaN \<and> y \<noteq> NaN \<and> z \<noteq> NaN)
      (reprojected scale_projection mesh_inf)"
    unfolding pi by simp
  from builder_invariant [of scale_projection mesh2 cloud2]
    builder_invariant [of scale_projection mesh_inf cloud_inf]
    builder_invariant [of scale_projection mesh0 empty_cloud]
    build_mesh2 build_mesh_inf build_mesh0 v n2 ni p2 pi
  show ?thesis
    by simp
qed

text \<open>
  C2, as amended. Where the header check and the decoder succeed, \<^verbatim>\<open>loadPointCloud\<close>
  fails with a \<^verbatim>\<open>TypeError\<close> if the mesh has no position attribute and with a
  \<^verbatim>\<open>RangeError\<close> if the declared vertex count is negative; the result is then the error
  and no cloud. With a declared vertex count of zero it does not fail: it returns a cloud
  without points.
\<close>

theorem loadPointCloud_failure:
  assumes "checkHeader buf = Inr patched" and "decode patched = Inr mesh"
  shows "(attr_POSITION (attributes mesh) = None \<longrightarrow>
            loadPointCloud decode forward buf = Inl TypeError)
       \<and> (attr_POSITION (attributes mesh) \<noteq> None \<and> vertexCount (header mesh) < 0 \<longrightarrow>
            loadPointCloud decode forward buf = Inl RangeError)
       \<and> (attr_POSITION (attributes mesh) \<noteq> None \<and> vertexCount (header mesh) = 0 \<longrightarrow>
            (\<exists>d. loadPointCloud decode forward buf = Inr d \<and> pointCount d = 0
                 \<and> positions d = []))"
proof -
  have l: "loadPointCloud decode forward buf = buildPointCloud forward mesh"
    using assms by (rule loadPointCloud_build)
  have neg: "sample_count v < 0" if "v < 0" for v
  proof -
    from that have "sample_step v = 1" by (simp add: sample_step_def MAX_POINTS_def)
    with that show ?thesis by (simp add: sample_count_def)
  qed
  have zero: "sample_count 0 = 0"
    by (simp add: sample_count_def)
  show ?thesis
    unfolding l
    by (auto simp add: buildPointCloud_def Let_def neg zero finish_cloud_def)
qed

text \<open>
  C2, as stated, fails on the empty mesh, whose declared vertex count is zero: the call
  returns a cloud.
\<close>

theorem loadPointCloud_failure_counterexample:
  "vertexCount (header mesh0) = 0
   \<and> loadPointCloud (stub_decoder mesh0) scale_projection las_bytes = Inr empty_cloud"
proof
  show "vertexCount (header mesh0) = 0"
    by (simp add: mesh0_def)
  show "loadPointCloud (stub_decoder mesh0) scale_projection las_bytes = Inr empty_cloud"
    by (simp add: loadPointCloud_def checkHeader_las_bytes stub_decoder_def build_mesh0)
qed

theorem loadPointCloud_failure_witness:
  "checkHeader las_bytes = Inr las_bytes
   \<and> attr_POSITION (attributes mesh_without_position) = None
   \<and> loadPointCloud (stub_decoder mesh_without_position) scale_projection las_bytes
       = Inl TypeError
   \<and> attr_POSITION (attributes mesh_negative) \<noteq> None
   \<and> vertexCount (header mesh_negative) < 0
   \<and> loadPointCloud (stub_decoder mesh_negative) scale_projection las_bytes = Inl RangeError"
proof -
  have d: "stub_decoder m las_bytes = Inr m" for m
    by (simp add: stub_decoder_def)
  have a: "attr_POSITION (attributes mesh_without_position) = None"
    "attr_POSITION (attributes mesh_negative) \<noteq> None"
    "vertexCount (header mesh_negative) < 0"
    by (simp_all add: mesh_without_position_def mesh_negative_def)
  from loadPointCloud_failure
      [of las_bytes las_bytes "stub_decoder mesh_without_position" mesh_without_position
        scale_projection, OF checkHeader_las_bytes d]
    loadPointCloud_failure
      [of las_bytes las_bytes "stub_decoder mesh_negative" mesh_negative scale_projection,
        OF checkHeader_las_bytes d]
    a checkHeader_las_bytes
  show ?thesis
    by blast
qed

end
